theory Spec2Isabelle
  imports Main "HOL-Library.Word"
begin

section \<open>Chain configuration: fork activation\<close>

text \<open>
  Block numbers of the chain configuration are Go \<^verbatim>\<open>*big.Int\<close> values: an unbounded
  integer behind a pointer that may be nil. They are modelled as \<open>int option\<close>, the
  nil pointer being \<open>None\<close>. A Go \<^verbatim>\<open>uint64\<close> is a \<open>nat\<close>, and the wrap-around
  modulo \<open>2 ^ 64\<close> is written out wherever the source's arithmetic can overflow.
\<close>

type_synonym big = "int option"

type_synonym uint64 = nat

text \<open>
  The fields of \<^verbatim>\<open>ChainConfig\<close> that the fork predicates and the compatibility check
  read, in the order of the struct.
\<close>

record ChainConfig =
  ChainID :: big
  HomesteadBlock :: big
  DAOForkBlock :: big
  DAOForkSupport :: bool
  EIP150Block :: big
  EIP155Block :: big
  EIP158Block :: big
  ByzantiumBlock :: big
  ConstantinopleBlock :: big
  PetersburgBlock :: big
  IstanbulBlock :: big
  MuirGlacierBlock :: big
  BerlinBlock :: big
  LondonBlock :: big
  ArrowGlacierBlock :: big
  OdysseusBlock :: big
  FenixBlock :: big
  ConsortiumV2Block :: big
  PuffyBlock :: big
  BubaBlock :: big
  OlekBlock :: big
  ShillinBlock :: big
  AntennaBlock :: big
  MikoBlock :: big
  TrippBlock :: big
  AaronBlock :: big
  ShanghaiBlock :: big
  CancunBlock :: big
  VenokiBlock :: big
  PragueBlock :: big

text \<open>\<^verbatim>\<open>isForked\<close>: a fork scheduled at block \<open>s\<close> is active at \<open>head\<close>.\<close>

fun isForked :: "big \<Rightarrow> big \<Rightarrow> bool" where
  "isForked None head = False"
| "isForked (Some s) None = False"
| "isForked (Some s) (Some head) = (s \<le> head)"

fun configNumEqual :: "big \<Rightarrow> big \<Rightarrow> bool" where
  "configNumEqual None y = (y = None)"
| "configNumEqual (Some x) None = False"
| "configNumEqual (Some x) (Some y) = (x = y)"



definition IsEIP158 :: "ChainConfig \<Rightarrow> big \<Rightarrow> bool" where
  "IsEIP158 c num = isForked (EIP158Block c) num"

definition IsConstantinople :: "ChainConfig \<Rightarrow> big \<Rightarrow> bool" where
  "IsConstantinople c num = isForked (ConstantinopleBlock c) num"

definition IsPetersburg :: "ChainConfig \<Rightarrow> big \<Rightarrow> bool" where
  "IsPetersburg c num =
     (isForked (PetersburgBlock c) num \<or>
      (PetersburgBlock c = None \<and> isForked (ConstantinopleBlock c) num))"

definition IsFenix :: "ChainConfig \<Rightarrow> big \<Rightarrow> bool" where
  "IsFenix c num = isForked (FenixBlock c) num"

definition IsOnConsortiumV2 :: "ChainConfig \<Rightarrow> big \<Rightarrow> bool" where
  "IsOnConsortiumV2 c num = configNumEqual (ConsortiumV2Block c) num"

text \<open>A configuration with every fork unscheduled, to build concrete ones from.\<close>

definition noForks :: ChainConfig where
  "noForks = \<lparr> ChainID = None, HomesteadBlock = None, DAOForkBlock = None,
     DAOForkSupport = False, EIP150Block = None, EIP155Block = None, EIP158Block = None,
     ByzantiumBlock = None, ConstantinopleBlock = None, PetersburgBlock = None,
     IstanbulBlock = None, MuirGlacierBlock = None, BerlinBlock = None, LondonBlock = None,
     ArrowGlacierBlock = None, OdysseusBlock = None, FenixBlock = None,
     ConsortiumV2Block = None, PuffyBlock = None, BubaBlock = None, OlekBlock = None,
     ShillinBlock = None, AntennaBlock = None, MikoBlock = None, TrippBlock = None,
     AaronBlock = None, ShanghaiBlock = None, CancunBlock = None, VenokiBlock = None,
     PragueBlock = None \<rparr>"

section \<open>Chain configuration: compatibility check\<close>


definition Uint64 :: "int \<Rightarrow> uint64" where
  "Uint64 x = nat \<bar>x\<bar> mod 2 ^ 64"

definition sub64 :: "uint64 \<Rightarrow> uint64 \<Rightarrow> uint64" where
  "sub64 a b = (a mod 2 ^ 64 + (2 ^ 64 - b mod 2 ^ 64)) mod 2 ^ 64"






lemma isForked_le: "isForked s (Some h) \<Longrightarrow> \<exists>s'. s = Some s' \<and> s' \<le> h"
  by (cases s) auto

lemma wrap_sub_nowrap:
  fixes a b M :: nat
  assumes "b \<le> a" "a < M"
  shows "(a mod M + (M - b mod M)) mod M = a - b"
proof -
  have "a mod M = a" "b mod M = b" using assms by simp_all
  moreover have "a + (M - b) = (a - b) + M" using assms by arith
  moreover have "(a - b + M) mod M = (a - b) mod M" by (rule mod_add_self2)
  moreover have "(a - b) mod M = a - b" using assms by (intro mod_less) arith
  ultimately show ?thesis by (simp only:)
qed

lemma wrap_sub_wrap:
  fixes a b M :: nat
  assumes "a < b" "b < M"
  shows "(a mod M + (M - b mod M)) mod M = a + M - b"
  using assms by simp

lemma sub64_nowrap: "b \<le> a \<Longrightarrow> a < 2 ^ 64 \<Longrightarrow> sub64 a b = a - b"
  unfolding sub64_def by (rule wrap_sub_nowrap)

lemma sub64_wrap: "a < b \<Longrightarrow> b < 2 ^ 64 \<Longrightarrow> sub64 a b = a + 2 ^ 64 - b"
  unfolding sub64_def by (rule wrap_sub_wrap)












section \<open>Consortium v1 engine: data\<close>

text \<open>
  Go's fixed-size byte arrays are words of the same width, read big-endian:
  \<^verbatim>\<open>common.Hash\<close> (32 bytes), \<^verbatim>\<open>common.Address\<close> (20 bytes), \<^verbatim>\<open>types.Bloom\<close>
  (256 bytes) and \<^verbatim>\<open>types.BlockNonce\<close> (8 bytes); the zero value of each is \<open>0\<close>.
  A byte slice is a list of bytes.
\<close>

type_synonym byte = "8 word"
type_synonym hash = "256 word"
type_synonym address = "160 word"
type_synonym bloom = "2048 word"
type_synonym nonce = "64 word"

text \<open>The fields of \<^verbatim>\<open>types.Header\<close> that the engine reads or writes.\<close>

record Header =
  ParentHash :: hash
  UncleHash :: hash
  Coinbase :: address
  Root :: hash
  TxHash :: hash
  ReceiptHash :: hash
  Bloom :: bloom
  Difficulty :: big
  Number :: big
  GasLimit :: uint64
  GasUsed :: uint64
  Time :: uint64
  Extra :: "byte list"
  MixDigest :: hash
  Nonce :: nonce

text \<open>
  The fields of the engine's \<^verbatim>\<open>Snapshot\<close> that \<^verbatim>\<open>consortium.go\<close> reads (they are
  the ones \<^verbatim>\<open>GetSnapshot\<close> copies). \<^verbatim>\<open>SignerSet\<close> is a Go map used as a set;
  \<^verbatim>\<open>Recents\<close> is a Go map from block number to signer, kept as the list of its
  entries, which the sealing loop ranges over.
\<close>

record Snapshot =
  SignerSet :: "address set"
  SignerList :: "address list"
  Recents :: "(uint64 \<times> address) list"

text \<open>
  A Go function either returns or panics. A panic is \<open>Inl\<close> of the kind of panic;
  a return is \<open>Inr\<close> of the returned values, where a returned \<^verbatim>\<open>error\<close> is an
  \<open>error option\<close> (\<open>None\<close> for nil) and a returned pair \<^verbatim>\<open>(T, error)\<close> whose first
  component no caller reads on error is \<open>error + T\<close>.
  \<open>CantEncode msg\<close> is \<^verbatim>\<open>panic("can't encode: " + msg)\<close>; \<open>ErrorsNew msg\<close> is
  \<^verbatim>\<open>errors.New(msg)\<close>; \<open>External msg\<close> is an error returned by an injected
  collaborator.
\<close>

datatype panic =
    SliceBoundsOutOfRange
  | IntegerDivideByZero
  | NilPointerDereference
  | CantEncode string

datatype error =
    ErrUnknownBlock
  | ErrUnknownAncestor
  | ErrFutureBlock
  | errInvalidNonce
  | ErrMissingVanity
  | ErrMissingSignature
  | errExtraSigners
  | ErrInvalidCheckpointSigners
  | ErrInvalidMixDigest
  | ErrInvalidUncleHash
  | ErrInvalidDifficulty
  | ErrWrongDifficulty
  | errInvalidTimestamp
  | errUnauthorizedSigner
  | errWrongCoinbase
  | ErrRecentlySigned
  | ErrorsNew string
  | External string

text \<open>The values handed to \<^verbatim>\<open>rlp.Encode\<close>, tagged with their Go type.\<close>

datatype rlp_item =
    RlpHash hash
  | RlpAddress address
  | RlpBloom bloom
  | RlpBig big
  | RlpUint64 uint64
  | RlpBytes "byte list"
  | RlpNonce nonce

text \<open>The signature cache \<^verbatim>\<open>c.signatures\<close>, from header hash to recovered signer.\<close>

type_synonym sigcache = "hash \<rightharpoonup> address"

record ConsortiumConfig =
  Period :: uint64
  Epoch :: uint64

text \<open>
  The engine's collaborators, whose code is not part of the engine file, are parameters:
  the clock, the RLP encoder (\<open>Inl msg\<close> when it returns an error), Keccak-256, public
  key recovery, the header hash, the chain reader, the fork-hash check, the address
  list codec of the checkpoint extra-data, the signing function, and the snapshot lookup
  \<^verbatim>\<open>c.snapshot\<close>. The lookup walks back through the chain until it meets a snapshot
  in the in-memory cache or in the database and folds \<^verbatim>\<open>Snapshot.apply\<close> over the
  headers it passed; each of these steps is a call out of the engine file, and the
  functions below only consume the snapshot (or the error) it returns. It may add to the
  signature cache. \<open>emptyUncleHash\<close> is \<^verbatim>\<open>types.CalcUncleHash(nil)\<close>.
\<close>

record Env =
  now :: uint64
  rlpEncode :: "rlp_item list \<Rightarrow> string + byte list"
  Keccak256 :: "byte list \<Rightarrow> hash"
  cryptoEcrecover :: "hash \<Rightarrow> byte list \<Rightarrow> error + byte list"
  HeaderHash :: "Header \<Rightarrow> hash"
  emptyUncleHash :: hash
  Config :: ChainConfig
  GetHeader :: "hash \<Rightarrow> uint64 \<Rightarrow> Header option"
  GetHeaderByNumber :: "uint64 \<Rightarrow> Header option"
  VerifyForkHashes :: "Header \<Rightarrow> error option"
  ExtractAddressFromBytes :: "byte list \<Rightarrow> address list"
  CompareSignersLists :: "address list \<Rightarrow> address list \<Rightarrow> bool"
  signFn :: "address \<Rightarrow> byte list \<Rightarrow> error + byte list"
  snapshot :: "uint64 \<Rightarrow> hash \<Rightarrow> Header list \<Rightarrow> sigcache \<Rightarrow> (error + Snapshot) \<times> sigcache"

text \<open>
  The engine: its configuration, the local signer \<^verbatim>\<open>val\<close>, and the two injected
  validator oracles, each \<open>None\<close> when the function pointer is nil and otherwise the
  result of calling it.
\<close>

record Consortium =
  chainConfig :: ChainConfig
  config :: ConsortiumConfig
  val :: address
  skipCheckpointHeaderCheck :: bool
  getSCValidators :: "(error + address list) option"
  getFenixValidators :: "(error + address list) option"

definition epochLength :: uint64 where
  "epochLength = 30000"

definition extraVanity :: nat where
  "extraVanity = 32"

text \<open>
  Modelled from the spec: \<^verbatim>\<open>consortiumCommon.ExtraSeal\<close>, \<^verbatim>\<open>crypto.SignatureLength\<close>
  and \<^verbatim>\<open>common.AddressLength\<close> are declared outside the engine file; the specification
  gives the seal as 65 bytes and an address as 20 bytes.
\<close>

definition ExtraSeal :: nat where
  "ExtraSeal = 65"

definition SignatureLength :: nat where
  "SignatureLength = 65"

definition AddressLength :: nat where
  "AddressLength = 20"

definition diffInTurn :: int where
  "diffInTurn = 7"

definition diffNoTurn :: int where
  "diffNoTurn = 3"

text \<open>\<^verbatim>\<open>New\<close> replaces a zero epoch by the default before it builds the engine.\<close>

definition New_config :: "ConsortiumConfig \<Rightarrow> ConsortiumConfig" where
  "New_config consortiumConfig =
     (if Epoch consortiumConfig = 0 then consortiumConfig\<lparr>Epoch := epochLength\<rparr>
      else consortiumConfig)"

section \<open>Header codec and seal hash\<close>

text \<open>
  \<^verbatim>\<open>encodeSigHeader\<close>: the slice expression
  \<^verbatim>\<open>header.Extra[:len(header.Extra)-crypto.SignatureLength]\<close> is evaluated while the
  argument list is built, so a short extra-data panics before the encoder runs.
  The result is the bytes written to the writer.
\<close>

definition sigHeaderFields :: "Header \<Rightarrow> rlp_item list" where
  "sigHeaderFields header =
     [ RlpHash (ParentHash header),
       RlpHash (UncleHash header),
       RlpAddress (Coinbase header),
       RlpHash (Root header),
       RlpHash (TxHash header),
       RlpHash (ReceiptHash header),
       RlpBloom (Bloom header),
       RlpBig (Difficulty header),
       RlpBig (Number header),
       RlpUint64 (GasLimit header),
       RlpUint64 (GasUsed header),
       RlpUint64 (Time header),
       RlpBytes (take (length (Extra header) - SignatureLength) (Extra header)),
       RlpHash (MixDigest header),
       RlpNonce (Nonce header) ]"

definition encodeSigHeader :: "Env \<Rightarrow> Header \<Rightarrow> panic + byte list" where
  "encodeSigHeader env header =
     (if length (Extra header) < SignatureLength then Inl SliceBoundsOutOfRange
      else case rlpEncode env (sigHeaderFields header) of
             Inl msg \<Rightarrow> Inl (CantEncode msg)
           | Inr bytes \<Rightarrow> Inr bytes)"

definition SealHash :: "Env \<Rightarrow> Header \<Rightarrow> panic + hash" where
  "SealHash env header =
     (case encodeSigHeader env header of
        Inl p \<Rightarrow> Inl p
      | Inr bytes \<Rightarrow> Inr (Keccak256 env bytes))"

definition consortiumRLP :: "Env \<Rightarrow> Header \<Rightarrow> panic + byte list" where
  "consortiumRLP env header = encodeSigHeader env header"

text \<open>
  Go's \<^verbatim>\<open>copy(dst[off:], src)\<close> on a slice \<open>dst\<close> with \<open>off \<le> length dst\<close>: it
  overwrites as many bytes as both sides have. \<open>attachSignature\<close> is the statement
  \<^verbatim>\<open>copy(header.Extra[len(header.Extra)-ExtraSeal:], sighash)\<close> of \<^verbatim>\<open>Seal\<close>.
\<close>

definition copyAt :: "'a list \<Rightarrow> nat \<Rightarrow> 'a list \<Rightarrow> 'a list" where
  "copyAt dst off src =
     take off dst @ take (length dst - off) src @
     drop (off + min (length dst - off) (length src)) dst"

definition attachSignature :: "Header \<Rightarrow> byte list \<Rightarrow> panic + Header" where
  "attachSignature header sighash =
     (if length (Extra header) < ExtraSeal then Inl SliceBoundsOutOfRange
      else Inr (header\<lparr>Extra :=
                  copyAt (Extra header) (length (Extra header) - ExtraSeal) sighash\<rparr>))"

text \<open>
  \<^verbatim>\<open>Ecrecover\<close> returns \<^verbatim>\<open>(common.Address, error)\<close>; the pair is kept, since the
  address returned beside an error is the zero address. The second component of the
  model's result is the signature cache afterwards.
\<close>

definition Ecrecover ::
  "Env \<Rightarrow> Header \<Rightarrow> sigcache \<Rightarrow> (panic + address \<times> error option) \<times> sigcache" where
  "Ecrecover env header sigs =
     (let hash = HeaderHash env header in
      case sigs hash of
        Some addr \<Rightarrow> (Inr (addr, None), sigs)
      | None \<Rightarrow>
          if length (Extra header) < ExtraSeal then (Inr (0, Some ErrMissingSignature), sigs)
          else
            let signature = drop (length (Extra header) - ExtraSeal) (Extra header) in
            case SealHash env header of
              Inl p \<Rightarrow> (Inl p, sigs)
            | Inr sealhash \<Rightarrow>
                (case cryptoEcrecover env sealhash signature of
                   Inl err \<Rightarrow> (Inr (0, Some err), sigs)
                 | Inr pubkey \<Rightarrow>
                     if length pubkey < 1 then (Inl SliceBoundsOutOfRange, sigs)
                     else
                       let signer = (ucast (Keccak256 env (drop 1 pubkey)) :: address) in
                       (Inr (signer, None), sigs(hash \<mapsto> signer))))"

definition Author :: "Env \<Rightarrow> Header \<Rightarrow> sigcache \<Rightarrow> (panic + address \<times> error option) \<times> sigcache" where
  "Author env header sigs = Ecrecover env header sigs"

section \<open>Validators and turns\<close>

text \<open>
  \<open>add64\<close> is addition of \<^verbatim>\<open>uint64\<close> values and \<open>toInt64\<close> the conversion
  \<^verbatim>\<open>int64(number)\<close> of a \<^verbatim>\<open>uint64\<close>.
\<close>

definition add64 :: "uint64 \<Rightarrow> uint64 \<Rightarrow> uint64" where
  "add64 a b = (a + b) mod 2 ^ 64"

definition toInt64 :: "uint64 \<Rightarrow> int" where
  "toInt64 n = (if n mod 2 ^ 64 < 2 ^ 63 then int (n mod 2 ^ 64) else int (n mod 2 ^ 64) - 2 ^ 64)"

text \<open>
  \<^verbatim>\<open>signerInTurn\<close>: both the division by the epoch and the remainder by the number of
  validators panic on a zero divisor. The index is below the length of the list.
\<close>

definition signerInTurn :: "Consortium \<Rightarrow> address \<Rightarrow> uint64 \<Rightarrow> address list \<Rightarrow> panic + bool" where
  "signerInTurn c signer number validators =
     (if Epoch (config c) = 0 then Inl IntegerDivideByZero
      else
        let lastCheckpoint = number div Epoch (config c) * Epoch (config c) in
        if length validators = 0 then Inl IntegerDivideByZero
        else
          let index = (number - lastCheckpoint) mod length validators in
          Inr (validators ! index = signer))"

definition doCalcDifficulty :: "Consortium \<Rightarrow> address \<Rightarrow> uint64 \<Rightarrow> address list \<Rightarrow> panic + int" where
  "doCalcDifficulty c signer number validators =
     (case signerInTurn c signer number validators of
        Inl p \<Rightarrow> Inl p
      | Inr inturn \<Rightarrow> Inr (if inturn then diffInTurn else diffNoTurn))"

text \<open>
  \<^verbatim>\<open>getValidatorsFromGenesis\<close>: \<^verbatim>\<open>common.HexToAddress\<close> keeps the last 20 bytes of
  the 32-byte strings of the source.
\<close>

definition getValidatorsFromGenesis :: "Consortium \<Rightarrow> panic + error + address list" where
  "getValidatorsFromGenesis c =
     (case ChainID (chainConfig c) of
        None \<Rightarrow> Inl NilPointerDereference
      | Some chainID \<Rightarrow>
          if chainID = 2020 then
            Inr (Inr [ 0xf224beff587362a88d859e899d0d80c080e1e812,
                       0x11360eacdedd59bc433afad4fc8f0417d1fbebab,
                       0x70bb1fb41c8c42f6ddd53a708e2b82209495e455 ])
          else if chainID = 2021 then
            Inr (Inr [ 0x4a4bc674a97737376cfe990ae2fe0d2b6e738393,
                       0xb6bc5bc0410773a3f86b1537ce7495c52e38f88b ])
          else Inr (Inl (ErrorsNew
                 ''no validator set for this chain only support Mainnet & Testnet'')))"

definition getValidatorsFromContract :: "Env \<Rightarrow> Consortium \<Rightarrow> uint64 \<Rightarrow> error + address list" where
  "getValidatorsFromContract env c number =
     (if IsFenix (Config env) (Some (toInt64 number)) then
        (case getFenixValidators c of
           None \<Rightarrow> Inl (ErrorsNew ''No getFenixValidators function supplied'')
         | Some r \<Rightarrow> r)
      else
        (case getSCValidators c of
           None \<Rightarrow> Inl (ErrorsNew ''No getSCValidators function supplied'')
         | Some r \<Rightarrow> r))"

text \<open>
  \<^verbatim>\<open>getValidatorsFromLastCheckpoint\<close>: the loop over \<^verbatim>\<open>recents\<close> keeps the last
  header whose number is the checkpoint; a nil \<^verbatim>\<open>recents\<close> is the empty list.
\<close>

fun findCheckpoint :: "Header list \<Rightarrow> uint64 \<Rightarrow> Header option \<Rightarrow> panic + Header option" where
  "findCheckpoint [] lastCheckpoint header = Inr header"
| "findCheckpoint (parent # rest) lastCheckpoint header =
     (case Number parent of
        None \<Rightarrow> Inl NilPointerDereference
      | Some n \<Rightarrow>
          findCheckpoint rest lastCheckpoint
            (if Uint64 n = lastCheckpoint then Some parent else header))"

definition getValidatorsFromLastCheckpoint ::
  "Env \<Rightarrow> Consortium \<Rightarrow> uint64 \<Rightarrow> Header list \<Rightarrow> panic + error + address list" where
  "getValidatorsFromLastCheckpoint env c number recents =
     (if Epoch (config c) = 0 then Inl IntegerDivideByZero
      else
        let lastCheckpoint = number div Epoch (config c) * Epoch (config c) in
        if lastCheckpoint = 0 then getValidatorsFromGenesis c
        else
          case findCheckpoint recents lastCheckpoint None of
            Inl p \<Rightarrow> Inl p
          | Inr found \<Rightarrow>
              (case (case found of
                       None \<Rightarrow> GetHeaderByNumber env lastCheckpoint
                     | Some h \<Rightarrow> Some h) of
                 None \<Rightarrow> Inl NilPointerDereference
               | Some header \<Rightarrow>
                   if length (Extra header) < ExtraSeal + extraVanity
                   then Inl SliceBoundsOutOfRange
                   else
                     let extraSuffix = length (Extra header) - ExtraSeal in
                     Inr (Inr (ExtractAddressFromBytes env
                       (take (extraSuffix - extraVanity) (drop extraVanity (Extra header)))))))"

text \<open>
  Modelled from the spec: \<^verbatim>\<open>consortiumCommon.SignerInList\<close> is declared outside the
  engine file; the specification has \<^verbatim>\<open>Seal\<close> verify that the local signer is in the
  validator list.
\<close>

definition SignerInList :: "address \<Rightarrow> address list \<Rightarrow> bool" where
  "SignerInList signer validators = (signer \<in> set validators)"

section \<open>Header verification\<close>

text \<open>
  \<^verbatim>\<open>verifySeal\<close>. The recent-signer check of the source is commented out and so is
  absent here. Both \<^verbatim>\<open>if\<close> statements on the difficulty call \<^verbatim>\<open>Cmp\<close> on
  \<^verbatim>\<open>header.Difficulty\<close> whichever way the turn falls, so a nil difficulty panics.
\<close>

definition verifySeal ::
  "Env \<Rightarrow> Consortium \<Rightarrow> Header \<Rightarrow> Header list \<Rightarrow> sigcache \<Rightarrow> (panic + error option) \<times> sigcache" where
  "verifySeal env c header parents sigs =
     (case Number header of
        None \<Rightarrow> (Inl NilPointerDereference, sigs)
      | Some n \<Rightarrow>
          let number = Uint64 n in
          if number = 0 then (Inr (Some ErrUnknownBlock), sigs)
          else
            case snapshot env (number - 1) (ParentHash header) parents sigs of
              (Inl err, sigs1) \<Rightarrow> (Inr (Some err), sigs1)
            | (Inr snap, sigs1) \<Rightarrow>
                (case Ecrecover env header sigs1 of
                   (Inl p, sigs2) \<Rightarrow> (Inl p, sigs2)
                 | (Inr (signer, Some err), sigs2) \<Rightarrow> (Inr (Some err), sigs2)
                 | (Inr (signer, None), sigs2) \<Rightarrow>
                     if signer \<noteq> Coinbase header then (Inr (Some errWrongCoinbase), sigs2)
                     else
                       let validators = SignerList snap in
                       if signer \<notin> SignerSet snap then (Inr (Some errUnauthorizedSigner), sigs2)
                       else
                         (case signerInTurn c signer number validators of
                            Inl p \<Rightarrow> (Inl p, sigs2)
                          | Inr inturn \<Rightarrow>
                              (case Difficulty header of
                                 None \<Rightarrow> (Inl NilPointerDereference, sigs2)
                               | Some d \<Rightarrow>
                                   if inturn \<and> d \<noteq> diffInTurn
                                   then (Inr (Some ErrWrongDifficulty), sigs2)
                                   else if \<not> inturn \<and> d \<noteq> diffNoTurn
                                   then (Inr (Some ErrWrongDifficulty), sigs2)
                                   else (Inr None, sigs2)))))"

definition VerifySeal ::
  "Env \<Rightarrow> Consortium \<Rightarrow> Header \<Rightarrow> sigcache \<Rightarrow> (panic + error option) \<times> sigcache" where
  "VerifySeal env c header sigs = verifySeal env c header [] sigs"

definition verifyCascadingFields ::
  "Env \<Rightarrow> Consortium \<Rightarrow> Header \<Rightarrow> Header list \<Rightarrow> sigcache \<Rightarrow> (panic + error option) \<times> sigcache" where
  "verifyCascadingFields env c header parents sigs =
     (case Number header of
        None \<Rightarrow> (Inl NilPointerDereference, sigs)
      | Some n \<Rightarrow>
          let number = Uint64 n in
          if number = 0 then (Inr None, sigs)
          else
            case (if parents \<noteq> [] then Some (last parents)
                  else GetHeader env (ParentHash header) (number - 1)) of
              None \<Rightarrow> (Inr (Some ErrUnknownAncestor), sigs)
            | Some parent \<Rightarrow>
                (case Number parent of
                   None \<Rightarrow> (Inl NilPointerDereference, sigs)
                 | Some pn \<Rightarrow>
                     if Uint64 pn \<noteq> number - 1 \<or> HeaderHash env parent \<noteq> ParentHash header
                     then (Inr (Some ErrUnknownAncestor), sigs)
                     else if Time header < add64 (Time parent) (Period (config c))
                     then (Inr (Some errInvalidTimestamp), sigs)
                     else if Epoch (config c) = 0 then (Inl IntegerDivideByZero, sigs)
                     else if number mod Epoch (config c) \<noteq> 0
                     then verifySeal env c header parents sigs
                     else if \<not> skipCheckpointHeaderCheck c then
                       (case getValidatorsFromContract env c (number - 1) of
                          Inl err \<Rightarrow> (Inr (Some err), sigs)
                        | Inr signers \<Rightarrow>
                            if length (Extra header) < ExtraSeal + extraVanity
                            then (Inl SliceBoundsOutOfRange, sigs)
                            else
                              let extraSuffix = length (Extra header) - ExtraSeal;
                                  checkpointHeaders = ExtractAddressFromBytes env
                                    (take (extraSuffix - extraVanity)
                                       (drop extraVanity (Extra header)))
                              in
                              if \<not> CompareSignersLists env checkpointHeaders signers
                              then (Inr (Some ErrInvalidCheckpointSigners), sigs)
                              else verifySeal env c header parents sigs)
                     else verifySeal env c header parents sigs))"

text \<open>
  \<^verbatim>\<open>VerifyHeaderAndParents\<close>: the standalone checks in the order of the source,
  then the cascading ones. \<^verbatim>\<open>signersBytes\<close> is a Go \<^verbatim>\<open>int\<close>; where it is computed
  the extra-data has at least 97 bytes, so it is not negative and Go's remainder is \<open>mod\<close>.
\<close>

definition VerifyHeaderAndParents ::
  "Env \<Rightarrow> Consortium \<Rightarrow> Header \<Rightarrow> Header list \<Rightarrow> sigcache \<Rightarrow> (panic + error option) \<times> sigcache" where
  "VerifyHeaderAndParents env c header parents sigs =
     (case Number header of
        None \<Rightarrow> (Inr (Some ErrUnknownBlock), sigs)
      | Some n \<Rightarrow>
          let number = Uint64 n in
          if now env < Time header then (Inr (Some ErrFutureBlock), sigs)
          else if Nonce header \<noteq> 0 then (Inr (Some errInvalidNonce), sigs)
          else if length (Extra header) < extraVanity then (Inr (Some ErrMissingVanity), sigs)
          else if length (Extra header) < extraVanity + ExtraSeal
          then (Inr (Some ErrMissingSignature), sigs)
          else if Epoch (config c) = 0 then (Inl IntegerDivideByZero, sigs)
          else
            let checkpoint = (number mod Epoch (config c) = 0);
                signersBytes = int (length (Extra header)) - int extraVanity - int ExtraSeal
            in
            if \<not> checkpoint \<and> signersBytes \<noteq> 0 then (Inr (Some errExtraSigners), sigs)
            else if checkpoint \<and> signersBytes mod int AddressLength \<noteq> 0
            then (Inr (Some ErrInvalidCheckpointSigners), sigs)
            else if MixDigest header \<noteq> 0 then (Inr (Some ErrInvalidMixDigest), sigs)
            else if UncleHash header \<noteq> emptyUncleHash env
            then (Inr (Some ErrInvalidUncleHash), sigs)
            else if 0 < number \<and>
                    (case Difficulty header of
                       None \<Rightarrow> True
                     | Some d \<Rightarrow> d \<noteq> diffInTurn \<and> d \<noteq> diffNoTurn)
            then (Inr (Some ErrInvalidDifficulty), sigs)
            else
              case VerifyForkHashes env header of
                Some err \<Rightarrow> (Inr (Some err), sigs)
              | None \<Rightarrow> verifyCascadingFields env c header parents sigs)"

definition VerifyHeader ::
  "Env \<Rightarrow> Consortium \<Rightarrow> Header \<Rightarrow> sigcache \<Rightarrow> (panic + error option) \<times> sigcache" where
  "VerifyHeader env c header sigs = VerifyHeaderAndParents env c header [] sigs"

section \<open>Sealing\<close>

text \<open>
  The loop of \<^verbatim>\<open>Seal\<close> over \<^verbatim>\<open>snap.Recents\<close>; \<open>limit\<close> is
  \<^verbatim>\<open>uint64(len(validators)/2 + 1)\<close> and \<^verbatim>\<open>number-limit\<close> is a \<^verbatim>\<open>uint64\<close>
  subtraction.
\<close>

fun recentlySigned :: "(uint64 \<times> address) list \<Rightarrow> address \<Rightarrow> uint64 \<Rightarrow> uint64 \<Rightarrow> bool" where
  "recentlySigned [] signer number limit = False"
| "recentlySigned ((seen, recent) # rest) signer number limit =
     (if recent = signer \<and> sub64 number limit < seen then True
      else recentlySigned rest signer number limit)"

text \<open>
  \<^verbatim>\<open>Seal\<close> up to its return. On success the model returns the sealed header, which
  the source hands to a goroutine that publishes it after the delay; the delay and its
  random part are not modelled, but the turn test that decides on the random part is
  evaluated.
\<close>

definition Seal ::
  "Env \<Rightarrow> Consortium \<Rightarrow> Header \<Rightarrow> nat \<Rightarrow> sigcache \<Rightarrow> (panic + error + Header) \<times> sigcache" where
  "Seal env c header ntxs sigs =
     (case Number header of
        None \<Rightarrow> (Inl NilPointerDereference, sigs)
      | Some n \<Rightarrow>
          let number = Uint64 n in
          if number = 0 then (Inr (Inl ErrUnknownBlock), sigs)
          else if Period (config c) = 0 \<and> ntxs = 0
          then (Inr (Inl (ErrorsNew ''sealing paused while waiting for transactions'')), sigs)
          else
            let signer = val c in
            case getValidatorsFromLastCheckpoint env c (number - 1) [] of
              Inl p \<Rightarrow> (Inl p, sigs)
            | Inr (Inl err) \<Rightarrow> (Inr (Inl err), sigs)
            | Inr (Inr validators) \<Rightarrow>
                if \<not> SignerInList (val c) validators
                then (Inr (Inl errUnauthorizedSigner), sigs)
                else
                  (case snapshot env (number - 1) (ParentHash header) [] sigs of
                     (Inl err, sigs1) \<Rightarrow> (Inr (Inl err), sigs1)
                   | (Inr snap, sigs1) \<Rightarrow>
                       if recentlySigned (Recents snap) signer number
                            (length validators div 2 + 1)
                       then (Inr (Inl ErrRecentlySigned), sigs1)
                       else
                         (case signerInTurn c signer number validators of
                            Inl p \<Rightarrow> (Inl p, sigs1)
                          | Inr inturn \<Rightarrow>
                              (case consortiumRLP env header of
                                 Inl p \<Rightarrow> (Inl p, sigs1)
                               | Inr rlp \<Rightarrow>
                                   (case signFn env signer rlp of
                                      Inl err \<Rightarrow> (Inr (Inl err), sigs1)
                                    | Inr sighash \<Rightarrow>
                                        (case attachSignature header sighash of
                                           Inl p \<Rightarrow> (Inl p, sigs1)
                                         | Inr sealed \<Rightarrow> (Inr (Inr sealed), sigs1)))))))"

section \<open>Finalization\<close>

text \<open>
  What \<^verbatim>\<open>Finalize\<close> reaches through its pointer arguments: the header, the state,
  and the transaction, receipt and system-transaction slices. \<^verbatim>\<open>WrapUpEpoch\<close>, the
  injected applicator, may change any of them and returns an error or nil;
  \<^verbatim>\<open>IntermediateRoot\<close> returns the root and the finalised state. Both are
  parameters. The model returns what \<^verbatim>\<open>Finalize\<close> returns and what it leaves behind.
\<close>

type_synonym Transaction = "byte list"
type_synonym Receipt = "byte list"

record 'st Finalizing =
  fHeader :: Header
  fState :: 'st
  fTxs :: "Transaction list"
  fReceipts :: "Receipt list"
  fSystemTxs :: "Transaction list"
  fUsedGas :: uint64

definition systemTxsMismatch :: error where
  "systemTxsMismatch = ErrorsNew ''the length of systemTxs does not match''"

definition Finalize ::
  "Env \<Rightarrow> Consortium \<Rightarrow> ('st Finalizing \<Rightarrow> error option \<times> 'st Finalizing) \<Rightarrow>
   ('st \<Rightarrow> bool \<Rightarrow> hash \<times> 'st) \<Rightarrow> 'st Finalizing \<Rightarrow> (panic + error option) \<times> 'st Finalizing" where
  "Finalize env c WrapUpEpoch IntermediateRoot f =
     (case Number (fHeader f) of
        None \<Rightarrow> (Inl NilPointerDereference, f)
      | Some n \<Rightarrow>
          let lastBlockInV1 = IsOnConsortiumV2 (chainConfig c) (Some (n + 1)) in
          if (0 < length (fSystemTxs f) \<and> \<not> lastBlockInV1) \<or>
             (length (fSystemTxs f) = 0 \<and> lastBlockInV1)
          then (Inr (Some systemTxsMismatch), f)
          else
            case (if 0 < length (fSystemTxs f) then
                    (case WrapUpEpoch f of
                       (Some err, f1) \<Rightarrow> (Some err, f1)
                     | (None, f1) \<Rightarrow>
                         if 0 < length (fSystemTxs f1) then (Some systemTxsMismatch, f1)
                         else (None, f1))
                  else (None, f)) of
              (Some err, f1) \<Rightarrow> (Inr (Some err), f1)
            | (None, f1) \<Rightarrow>
                let (root, state) =
                      IntermediateRoot (fState f1) (IsEIP158 (Config env) (Number (fHeader f1)))
                in (Inr None,
                    f1\<lparr>fHeader := (fHeader f1)\<lparr>Root := root, UncleHash := emptyUncleHash env\<rparr>,
                       fState := state\<rparr>))"

text \<open>
  The block as \<^verbatim>\<open>Finalize\<close> has it when it decides between an error and the
  assignment of the root: after \<^verbatim>\<open>WrapUpEpoch\<close> where that is called, untouched
  otherwise.
\<close>

definition afterWrapUp ::
  "Consortium \<Rightarrow> ('st Finalizing \<Rightarrow> error option \<times> 'st Finalizing) \<Rightarrow> 'st Finalizing \<Rightarrow> 'st Finalizing" where
  "afterWrapUp c W f =
     (case Number (fHeader f) of
        None \<Rightarrow> f
      | Some n \<Rightarrow>
          if fSystemTxs f \<noteq> [] \<and> IsOnConsortiumV2 (chainConfig c) (Some (n + 1))
          then snd (W f) else f)"

section \<open>Concrete inputs\<close>

text \<open>
  A header, collaborators and an engine to evaluate the definitions on. The toy encoder
  writes the extra-data prefix and one byte of the coinbase; the toy hash is the length
  of its input.
\<close>

definition testHeader :: Header where
  "testHeader = \<lparr> ParentHash = 0, UncleHash = 0, Coinbase = 0, Root = 0, TxHash = 0,
     ReceiptHash = 0, Bloom = 0, Difficulty = Some 7, Number = Some 1, GasLimit = 0,
     GasUsed = 0, Time = 0, Extra = [], MixDigest = 0, Nonce = 0 \<rparr>"

fun testItemBytes :: "rlp_item \<Rightarrow> byte list" where
  "testItemBytes (RlpBytes bs) = bs"
| "testItemBytes (RlpAddress a) = [ucast a]"
| "testItemBytes _ = []"

definition testEnv :: Env where
  "testEnv = \<lparr> now = 1000,
     rlpEncode = (\<lambda>items. Inr (concat (map testItemBytes items))),
     Keccak256 = (\<lambda>bs. of_nat (length bs)),
     cryptoEcrecover = (\<lambda>h sig. Inr (0 # sig)),
     HeaderHash = (\<lambda>h. of_nat (length (Extra h))),
     emptyUncleHash = 0,
     Config = noForks,
     GetHeader = (\<lambda>h n. None),
     GetHeaderByNumber = (\<lambda>n. None),
     VerifyForkHashes = (\<lambda>h. None),
     ExtractAddressFromBytes = (\<lambda>bs. []),
     CompareSignersLists = (\<lambda>xs ys. set xs = set ys),
     signFn = (\<lambda>a bs. Inr (replicate 65 1)),
     snapshot = (\<lambda>n h ps sigs. (Inl ErrUnknownAncestor, sigs)) \<rparr>"

definition testEngine :: Consortium where
  "testEngine = \<lparr> chainConfig = noForks\<lparr>ChainID := Some 2020\<rparr>,
     config = \<lparr> Period = 3, Epoch = 30000 \<rparr>,
     val = 0xf224beff587362a88d859e899d0d80c080e1e812,
     skipCheckpointHeaderCheck = False,
     getSCValidators = None,
     getFenixValidators = None \<rparr>"

text \<open>
  The three genesis validators of chain 2020 as a snapshot, with the given recent
  signers; \<open>turnEnv signer recents\<close> returns this snapshot for every block and
  recovers \<open>signer\<close> from every seal. \<open>sealedHeader\<close> carries 32 bytes of vanity
  and a 65-byte seal.
\<close>

definition genesisSigners :: "address list" where
  "genesisSigners = [ 0xf224beff587362a88d859e899d0d80c080e1e812,
                      0x11360eacdedd59bc433afad4fc8f0417d1fbebab,
                      0x70bb1fb41c8c42f6ddd53a708e2b82209495e455 ]"

definition turnEnv :: "address \<Rightarrow> (uint64 \<times> address) list \<Rightarrow> Env" where
  "turnEnv signer recents = testEnv\<lparr>
     Keccak256 := (\<lambda>bs. ucast signer),
     snapshot := (\<lambda>n h ps sigs.
       (Inr \<lparr> SignerSet = set genesisSigners, SignerList = genesisSigners,
               Recents = recents \<rparr>, sigs)) \<rparr>"

definition sealedHeader :: "int \<Rightarrow> address \<Rightarrow> int \<Rightarrow> Header" where
  "sealedHeader n coinbase difficulty = testHeader\<lparr> Number := Some n, Coinbase := coinbase,
     Difficulty := Some difficulty, Extra := replicate 32 0 @ replicate 65 1 \<rparr>"

definition signerB :: address where
  "signerB = 0x11360eacdedd59bc433afad4fc8f0417d1fbebab"

definition signerA :: address where
  "signerA = 0xf224beff587362a88d859e899d0d80c080e1e812"

text \<open>
  A chain with epoch 2 whose checkpoint at block 2 lists nine validators; validator 1 is
  the local signer and signed block 3.
\<close>

definition nineSigners :: "address list" where
  "nineSigners = [1, 2, 3, 4, 5, 6, 7, 8, 9]"

definition underflowEnv :: Env where
  "underflowEnv = testEnv\<lparr>
     GetHeaderByNumber := (\<lambda>n. if n = 2
        then Some (testHeader\<lparr> Number := Some 2,
                     Extra := replicate 32 0 @ replicate 180 5 @ replicate 65 1 \<rparr>)
        else None),
     ExtractAddressFromBytes := (\<lambda>bs. nineSigners),
     snapshot := (\<lambda>n h ps sigs.
       (Inr \<lparr> SignerSet = set nineSigners, SignerList = nineSigners,
               Recents = [(3, 1)] \<rparr>, sigs)) \<rparr>"

definition underflowEngine :: Consortium where
  "underflowEngine = testEngine\<lparr> config := \<lparr> Period = 3, Epoch = 2 \<rparr>, val := 1 \<rparr>"

text \<open>
  Finalization on a chain whose ConsortiumV2 block is 10, with a state that counts the
  applications of system transactions; one applicator consumes every system transaction,
  the other none.
\<close>

definition finEngine :: Consortium where
  "finEngine = testEngine\<lparr> chainConfig := noForks\<lparr>ConsortiumV2Block := Some 10\<rparr> \<rparr>"

definition finEnv :: Env where
  "finEnv = testEnv\<lparr> emptyUncleHash := 77 \<rparr>"

definition finInput :: "int \<Rightarrow> Transaction list \<Rightarrow> nat Finalizing" where
  "finInput n systemTxs = \<lparr> fHeader = testHeader\<lparr>Number := Some n\<rparr>, fState = 0, fTxs = [],
     fReceipts = [], fSystemTxs = systemTxs, fUsedGas = 0 \<rparr>"

definition consumeAll :: "nat Finalizing \<Rightarrow> error option \<times> nat Finalizing" where
  "consumeAll f = (None, f\<lparr> fState := Suc (fState f), fTxs := fTxs f @ fSystemTxs f,
     fSystemTxs := [] \<rparr>)"

definition consumeNone :: "nat Finalizing \<Rightarrow> error option \<times> nat Finalizing" where
  "consumeNone f = (None, f)"

definition rootOf :: "nat \<Rightarrow> bool \<Rightarrow> hash \<times> nat" where
  "rootOf st deleteEmptyObjects = (of_nat (st + 41), st)"

section \<open>Properties of the compatibility check\<close>










section \<open>Properties of the seal hash and of signer recovery\<close>

lemma SealHash_sigHeaderFields:
  assumes "65 \<le> length (Extra h1)" "65 \<le> length (Extra h2)"
    "sigHeaderFields h1 = sigHeaderFields h2"
  shows "SealHash env h1 = SealHash env h2"
  using assms by (simp add: SealHash_def encodeSigHeader_def SignatureLength_def)

lemma copyAt_length: "off \<le> length dst \<Longrightarrow> length (copyAt dst off src) = length dst"
  by (auto simp: copyAt_def min_def)

lemma copyAt_take: "off \<le> length dst \<Longrightarrow> take off (copyAt dst off src) = take off dst"
  by (simp add: copyAt_def)

lemma ucast_address_hash: "(ucast (ucast (a :: address) :: hash) :: address) = a"
  by (simp add: ucast_up_ucast_id is_up)

section \<open>Properties of seal verification\<close>

lemma turn_index_mod: "(N - N div E * E) mod k = (N mod E) mod (k::nat)"
  by (simp add: minus_div_mult_eq_mod)

lemma signerInTurn_ok:
  "Epoch (config c) \<noteq> 0 \<Longrightarrow> validators \<noteq> [] \<Longrightarrow>
   signerInTurn c signer number validators =
     Inr (validators ! ((number - number div Epoch (config c) * Epoch (config c))
                          mod length validators) = signer)"
  by (simp add: signerInTurn_def Let_def)

lemma signerInTurn_Inr:
  "signerInTurn c signer number validators = Inr b \<Longrightarrow>
     Epoch (config c) \<noteq> 0 \<and> validators \<noteq> [] \<and>
     b = (validators ! ((number - number div Epoch (config c) * Epoch (config c))
                          mod length validators) = signer)"
  by (auto simp: signerInTurn_def Let_def split: if_splits)

lemma verifySeal_accepts:
  assumes "Number header = Some n"
    and "verifySeal env c header parents sigs = (Inr None, sigs')"
  shows "0 < Uint64 n \<and>
    (\<exists>snap sigsA signer.
       snapshot env (Uint64 n - 1) (ParentHash header) parents sigs = (Inr snap, sigsA) \<and>
       Ecrecover env header sigsA = (Inr (signer, None), sigs') \<and>
       signer = Coinbase header \<and> signer \<in> SignerSet snap \<and>
       SignerList snap \<noteq> [] \<and> Epoch (config c) \<noteq> 0 \<and>
       Difficulty header = Some
         (if SignerList snap !
               ((Uint64 n - Uint64 n div Epoch (config c) * Epoch (config c))
                  mod length (SignerList snap)) = signer
          then 7 else 3))"
  using assms
  by (auto simp: verifySeal_def Let_def diffInTurn_def diffNoTurn_def
           split: if_splits prod.splits sum.splits option.splits
           dest!: signerInTurn_Inr)


lemma verifySeal_wrong_difficulty:
  assumes "Number header = Some n" "0 < Uint64 n"
    "snapshot env (Uint64 n - 1) (ParentHash header) parents sigs = (Inr snap, sigsA)"
    "Ecrecover env header sigsA = (Inr (signer, None), sigsB)"
    "signer = Coinbase header" "signer \<in> SignerSet snap"
    "SignerList snap \<noteq> []" "Epoch (config c) \<noteq> 0"
    "Difficulty header = Some d"
    "d \<noteq> (if SignerList snap !
               ((Uint64 n - Uint64 n div Epoch (config c) * Epoch (config c))
                  mod length (SignerList snap)) = signer
            then 7 else 3)"
  shows "verifySeal env c header parents sigs = (Inr (Some ErrWrongDifficulty), sigsB)"
  using assms
  by (auto simp: verifySeal_def Let_def diffInTurn_def diffNoTurn_def signerInTurn_ok
           split: if_splits)

lemma verifySeal_right_difficulty:
  assumes "Number header = Some n" "0 < Uint64 n"
    "snapshot env (Uint64 n - 1) (ParentHash header) parents sigs = (Inr snap, sigsA)"
    "Ecrecover env header sigsA = (Inr (signer, None), sigsB)"
    "signer = Coinbase header" "signer \<in> SignerSet snap"
    "SignerList snap \<noteq> []" "Epoch (config c) \<noteq> 0"
    "Difficulty header = Some
       (if SignerList snap !
               ((Uint64 n - Uint64 n div Epoch (config c) * Epoch (config c))
                  mod length (SignerList snap)) = signer
        then 7 else 3)"
  shows "verifySeal env c header parents sigs = (Inr None, sigsB)"
  using assms
  by (auto simp: verifySeal_def Let_def diffInTurn_def diffNoTurn_def signerInTurn_ok
           split: if_splits)

lemma Ecrecover_turnEnv:
  "Ecrecover (turnEnv signer recents) (sealedHeader n coinbase d) Map.empty
     = (Inr (signer, None), [97 \<mapsto> signer])"
  by (simp add: Ecrecover_def turnEnv_def testEnv_def sealedHeader_def testHeader_def
      ExtraSeal_def SealHash_def encodeSigHeader_def SignatureLength_def Let_def
      ucast_address_hash)

lemma snapshot_turnEnv:
  "snapshot (turnEnv signer recents) n h ps sigs
     = (Inr \<lparr> SignerSet = set genesisSigners, SignerList = genesisSigners,
               Recents = recents \<rparr>, sigs)"
  by (simp add: turnEnv_def)

lemma verifySeal_turnEnv:
  assumes "0 < Uint64 n" "signer \<in> set genesisSigners"
  shows "verifySeal (turnEnv signer recents) testEngine (sealedHeader n signer d) [] Map.empty =
     (if d = (if genesisSigners ! ((Uint64 n - Uint64 n div 30000 * 30000) mod 3) = signer
              then 7 else 3)
      then (Inr None, [97 \<mapsto> signer])
      else (Inr (Some ErrWrongDifficulty), [97 \<mapsto> signer]))"
proof -
  let ?env = "turnEnv signer recents" and ?h = "sealedHeader n signer d"
  let ?snap = "\<lparr> SignerSet = set genesisSigners, SignerList = genesisSigners,
                  Recents = recents \<rparr>"
  have 1: "Number ?h = Some n" "signer = Coinbase ?h" "Difficulty ?h = Some d"
    by (simp_all add: sealedHeader_def)
  have 2: "snapshot ?env (Uint64 n - 1) (ParentHash ?h) [] Map.empty = (Inr ?snap, Map.empty)"
    by (rule snapshot_turnEnv)
  have 3: "Ecrecover ?env ?h Map.empty = (Inr (signer, None), [97 \<mapsto> signer])"
    by (rule Ecrecover_turnEnv)
  have 4: "signer \<in> SignerSet ?snap" "SignerList ?snap \<noteq> []" "Epoch (config testEngine) \<noteq> 0"
    using assms(2) by (simp_all add: genesisSigners_def testEngine_def)
  have 5: "Epoch (config testEngine) = 30000" "length (SignerList ?snap) = 3"
    "SignerList ?snap = genesisSigners"
    by (simp_all add: genesisSigners_def testEngine_def)
  show ?thesis
  proof (cases "d = (if genesisSigners ! ((Uint64 n - Uint64 n div 30000 * 30000) mod 3) = signer
              then 7 else 3)")
    case True
    then have "Difficulty ?h = Some
       (if SignerList ?snap !
               ((Uint64 n - Uint64 n div Epoch (config testEngine) * Epoch (config testEngine))
                  mod length (SignerList ?snap)) = signer
        then 7 else 3)"
      using 1(3) 5 by simp
    from verifySeal_right_difficulty [OF 1(1) assms(1) 2 3 1(2) 4 this] True
    show ?thesis by simp
  next
    case False
    then have "d \<noteq>
       (if SignerList ?snap !
               ((Uint64 n - Uint64 n div Epoch (config testEngine) * Epoch (config testEngine))
                  mod length (SignerList ?snap)) = signer
        then 7 else 3)"
      using 5 by simp
    from verifySeal_wrong_difficulty [OF 1(1) assms(1) 2 3 1(2) 4 1(3) this] False
    show ?thesis by simp
  qed
qed


section \<open>Properties of sealing\<close>

lemma getValidators_testEngine:
  "n < 30000 \<Longrightarrow> getValidatorsFromLastCheckpoint env testEngine n [] = Inr (Inr genesisSigners)"
  by (simp add: getValidatorsFromLastCheckpoint_def testEngine_def getValidatorsFromGenesis_def
      genesisSigners_def)

lemma Seal_turnEnv_recent:
  "fst (Seal (turnEnv signerA [(1, signerA)]) testEngine (sealedHeader 2 signerA 3) 1 Map.empty)
     = Inr (Inl ErrRecentlySigned)"
proof -
  have v: "val testEngine = signerA" "Period (config testEngine) = 3"
    by (simp_all add: testEngine_def signerA_def)
  have g: "getValidatorsFromLastCheckpoint (turnEnv signerA [(1, signerA)]) testEngine (Uint64 2 - 1) []
     = Inr (Inr genesisSigners)"
    by (rule getValidators_testEngine) (simp add: Uint64_def)
  have m: "SignerInList signerA genesisSigners"
    by (simp add: SignerInList_def genesisSigners_def signerA_def)
  have r: "recentlySigned [(1, signerA)] signerA (Uint64 2) (length genesisSigners div 2 + 1)"
    by (simp add: Uint64_def genesisSigners_def sub64_def)
  have n: "Number (sealedHeader 2 signerA 3) = Some 2" by (simp add: sealedHeader_def)
  have p: "0 < Uint64 2" by (simp add: Uint64_def)
  show ?thesis
    using p by (simp add: Seal_def n v g m snapshot_turnEnv r Let_def
        del: recentlySigned.simps One_nat_def)
qed

text \<open>
  The loop over \<^verbatim>\<open>Recents\<close> finds an entry of the signer above \<^verbatim>\<open>number-limit\<close>;
  as long as \<open>limit \<le> number\<close> the subtraction does not wrap, and the entry is one at
  distance below \<open>limit\<close>.
\<close>

lemma recentlySigned_iff:
  "recentlySigned rs signer number limit =
     (\<exists>(seen, recent) \<in> set rs. recent = signer \<and> sub64 number limit < seen)"
  by (induction rs) auto

lemma recentlySigned_window:
  assumes "limit \<le> number" "number < 2 ^ 64"
  shows "recentlySigned rs signer number limit =
     (\<exists>(seen, recent) \<in> set rs. recent = signer \<and> int number - int limit < int seen)"
proof -
  have "sub64 number limit = number - limit" using assms by (rule sub64_nowrap)
  moreover have "(number - limit < seen) = (int number - int limit < int seen)" for seen
    using assms(1) by linarith
  ultimately show ?thesis by (simp add: recentlySigned_iff)
qed

lemma Seal_rejects_recent:
  assumes "Number header = Some n" "0 < Uint64 n" "\<not> (Period (config c) = 0 \<and> ntxs = 0)"
    "getValidatorsFromLastCheckpoint env c (Uint64 n - 1) [] = Inr (Inr validators)"
    "SignerInList (val c) validators"
    "snapshot env (Uint64 n - 1) (ParentHash header) [] sigs = (Inr snap, sigsA)"
    "recentlySigned (Recents snap) (val c) (Uint64 n) (length validators div 2 + 1)"
  shows "Seal env c header ntxs sigs = (Inr (Inl ErrRecentlySigned), sigsA)"
  using assms by (auto simp: Seal_def Let_def simp del: One_nat_def)

section \<open>Properties of finalization\<close>

lemma Finalize_mismatch:
  assumes "Number (fHeader f) = Some n"
    "(fSystemTxs f \<noteq> [] \<and> \<not> IsOnConsortiumV2 (chainConfig c) (Some (n + 1))) \<or>
     (fSystemTxs f = [] \<and> IsOnConsortiumV2 (chainConfig c) (Some (n + 1)))"
  shows "Finalize env c W R f = (Inr (Some systemTxsMismatch), f)"
  using assms by (auto simp: Finalize_def Let_def)

lemma Finalize_wrapup_error:
  assumes "Number (fHeader f) = Some n" "fSystemTxs f \<noteq> []"
    "IsOnConsortiumV2 (chainConfig c) (Some (n + 1))" "W f = (Some err, f')"
  shows "Finalize env c W R f = (Inr (Some err), f')"
  using assms by (auto simp: Finalize_def Let_def)

lemma Finalize_leftover:
  assumes "Number (fHeader f) = Some n" "fSystemTxs f \<noteq> []"
    "IsOnConsortiumV2 (chainConfig c) (Some (n + 1))" "W f = (None, f')" "fSystemTxs f' \<noteq> []"
  shows "Finalize env c W R f = (Inr (Some systemTxsMismatch), f')"
  using assms by (auto simp: Finalize_def Let_def)

lemma Finalize_consumed:
  assumes "Number (fHeader f) = Some n" "fSystemTxs f \<noteq> []"
    "IsOnConsortiumV2 (chainConfig c) (Some (n + 1))" "W f = (None, f')" "fSystemTxs f' = []"
    "R (fState f') (IsEIP158 (Config env) (Number (fHeader f'))) = (root, st)"
  shows "Finalize env c W R f =
    (Inr None, f'\<lparr>fHeader := (fHeader f')\<lparr>Root := root, UncleHash := emptyUncleHash env\<rparr>,
                   fState := st\<rparr>)"
  using assms by (auto simp: Finalize_def Let_def)

lemma Finalize_plain:
  assumes "Number (fHeader f) = Some n" "fSystemTxs f = []"
    "\<not> IsOnConsortiumV2 (chainConfig c) (Some (n + 1))"
    "R (fState f) (IsEIP158 (Config env) (Number (fHeader f))) = (root, st)"
  shows "Finalize env c W R f =
    (Inr None, f\<lparr>fHeader := (fHeader f)\<lparr>Root := root, UncleHash := emptyUncleHash env\<rparr>,
                  fState := st\<rparr>)"
  using assms by (auto simp: Finalize_def Let_def)

lemma Finalize_error_keeps_header:
  assumes "fst (Finalize env c W R f) \<noteq> Inr None"
  shows "snd (Finalize env c W R f) = afterWrapUp c W f"
  using assms
  by (auto simp: Finalize_def afterWrapUp_def Let_def
           split: option.splits prod.splits if_splits)

lemma Finalize_success_sets_header:
  assumes "fst (Finalize env c W R f) = Inr None"
  shows "fSystemTxs (afterWrapUp c W f) = [] \<and>
     Root (fHeader (snd (Finalize env c W R f))) =
       fst (R (fState (afterWrapUp c W f))
              (IsEIP158 (Config env) (Number (fHeader (afterWrapUp c W f))))) \<and>
     UncleHash (fHeader (snd (Finalize env c W R f))) = emptyUncleHash env"
  using assms
  by (auto simp: Finalize_def afterWrapUp_def Let_def
           split: option.splits prod.splits if_splits)


section \<open>Properties of the standalone header checks\<close>

lemma New_config_Epoch: "Epoch (New_config consortiumConfig) \<noteq> 0"
  by (simp add: New_config_def epochLength_def)

lemma signersBytes_nat:
  assumes "32 + 65 \<le> length (xs :: byte list)"
  shows "int (length xs) - int extraVanity - int ExtraSeal = int (length xs - 32 - 65)"
  using assms by (simp add: extraVanity_def ExtraSeal_def)

lemma int_mod_20: "(int k mod int AddressLength \<noteq> 0) = (k mod 20 \<noteq> 0)"
proof -
  have "int k mod 20 = int (k mod 20)" by (simp add: zmod_int)
  moreover have "(int (k mod 20) \<noteq> 0) = (k mod 20 \<noteq> 0)" by (rule arg_cong [where f = Not], rule of_nat_eq_0_iff)
  moreover have "int AddressLength = 20" by (simp add: AddressLength_def)
  ultimately show ?thesis by (simp only:)
qed

lemma VerifyHeaderAndParents_short_rejected:
  assumes "length (Extra header) < 32 + 65"
  shows "\<exists>e. VerifyHeaderAndParents env c header parents sigs = (Inr (Some e), sigs)"
proof (cases "Number header")
  case None
  then show ?thesis by (simp add: VerifyHeaderAndParents_def)
next
  case (Some n)
  consider "now env < Time header" | "\<not> now env < Time header" "Nonce header \<noteq> 0"
    | "\<not> now env < Time header" "Nonce header = 0" "length (Extra header) < 32"
    | "\<not> now env < Time header" "Nonce header = 0" "\<not> length (Extra header) < 32"
    by blast
  then show ?thesis
  proof cases
    case 1
    with Some show ?thesis by (simp add: VerifyHeaderAndParents_def Let_def)
  next
    case 2
    with Some show ?thesis by (simp add: VerifyHeaderAndParents_def Let_def)
  next
    case 3
    with Some show ?thesis
      by (simp add: VerifyHeaderAndParents_def Let_def extraVanity_def)
  next
    case 4
    with Some assms show ?thesis
      by (simp add: VerifyHeaderAndParents_def Let_def extraVanity_def ExtraSeal_def)
  qed
qed

lemma VerifyHeaderAndParents_signers_rejected:
  assumes "Number header = Some n" "Epoch (config c) \<noteq> 0" "32 + 65 \<le> length (Extra header)"
    "(Uint64 n mod Epoch (config c) \<noteq> 0 \<and> length (Extra header) - 32 - 65 \<noteq> 0) \<or>
     (Uint64 n mod Epoch (config c) = 0 \<and> (length (Extra header) - 32 - 65) mod 20 \<noteq> 0)"
  shows "\<exists>e. VerifyHeaderAndParents env c header parents sigs = (Inr (Some e), sigs)"
proof -
  define k where "k = length (Extra header) - 32 - 65"
  have sb: "int (length (Extra header)) - int extraVanity - int ExtraSeal = int k"
    unfolding k_def using assms(3) by (rule signersBytes_nat)
  have len: "\<not> length (Extra header) < extraVanity"
    "\<not> length (Extra header) < extraVanity + ExtraSeal"
    using assms(3) by (simp_all add: extraVanity_def ExtraSeal_def)
  from assms(4) have bad: "(Uint64 n mod Epoch (config c) \<noteq> 0 \<and> int k \<noteq> 0) \<or>
     (Uint64 n mod Epoch (config c) = 0 \<and> int k mod int AddressLength \<noteq> 0)"
    unfolding int_mod_20 k_def by simp
  consider "now env < Time header" | "\<not> now env < Time header" "Nonce header \<noteq> 0"
    | "\<not> now env < Time header" "Nonce header = 0"
    by blast
  then show ?thesis
  proof cases
    case 1
    with assms(1) show ?thesis by (simp add: VerifyHeaderAndParents_def Let_def)
  next
    case 2
    with assms(1) show ?thesis by (simp add: VerifyHeaderAndParents_def Let_def)
  next
    case 3
    from bad show ?thesis
    proof
      assume "Uint64 n mod Epoch (config c) \<noteq> 0 \<and> int k \<noteq> 0"
      with 3 assms(1,2) len show ?thesis
        by (simp add: VerifyHeaderAndParents_def Let_def sb)
    next
      assume "Uint64 n mod Epoch (config c) = 0 \<and> int k mod int AddressLength \<noteq> 0"
      with 3 assms(1,2) len show ?thesis
        by (simp add: VerifyHeaderAndParents_def Let_def sb)
    qed
  qed
qed

lemma VerifyHeaderAndParents_extra_errors:
  assumes "Number header = Some n" "Time header \<le> now env" "Nonce header = 0"
  shows
    "(length (Extra header) < 32 \<longrightarrow>
        VerifyHeaderAndParents env c header parents sigs = (Inr (Some ErrMissingVanity), sigs)) \<and>
     (32 \<le> length (Extra header) \<and> length (Extra header) < 32 + 65 \<longrightarrow>
        VerifyHeaderAndParents env c header parents sigs = (Inr (Some ErrMissingSignature), sigs)) \<and>
     (32 + 65 \<le> length (Extra header) \<and> Epoch (config c) \<noteq> 0 \<and>
      Uint64 n mod Epoch (config c) \<noteq> 0 \<and> length (Extra header) - 32 - 65 \<noteq> 0 \<longrightarrow>
        VerifyHeaderAndParents env c header parents sigs = (Inr (Some errExtraSigners), sigs)) \<and>
     (32 + 65 \<le> length (Extra header) \<and> Epoch (config c) \<noteq> 0 \<and>
      Uint64 n mod Epoch (config c) = 0 \<and> (length (Extra header) - 32 - 65) mod 20 \<noteq> 0 \<longrightarrow>
        VerifyHeaderAndParents env c header parents sigs
          = (Inr (Some ErrInvalidCheckpointSigners), sigs))"
proof (intro conjI impI)
  assume "length (Extra header) < 32"
  with assms show "VerifyHeaderAndParents env c header parents sigs = (Inr (Some ErrMissingVanity), sigs)"
    by (simp add: VerifyHeaderAndParents_def extraVanity_def)
next
  assume "32 \<le> length (Extra header) \<and> length (Extra header) < 32 + 65"
  with assms show "VerifyHeaderAndParents env c header parents sigs = (Inr (Some ErrMissingSignature), sigs)"
    by (simp add: VerifyHeaderAndParents_def extraVanity_def ExtraSeal_def)
next
  assume a: "32 + 65 \<le> length (Extra header) \<and> Epoch (config c) \<noteq> 0 \<and>
      Uint64 n mod Epoch (config c) \<noteq> 0 \<and> length (Extra header) - 32 - 65 \<noteq> 0"
  then have "int (length (Extra header)) - 32 - 65 \<noteq> 0" by linarith
  with a assms show "VerifyHeaderAndParents env c header parents sigs = (Inr (Some errExtraSigners), sigs)"
    by (simp add: VerifyHeaderAndParents_def extraVanity_def ExtraSeal_def Let_def)
next
  assume a: "32 + 65 \<le> length (Extra header) \<and> Epoch (config c) \<noteq> 0 \<and>
      Uint64 n mod Epoch (config c) = 0 \<and> (length (Extra header) - 32 - 65) mod 20 \<noteq> 0"
  define k where "k = length (Extra header) - 32 - 65"
  from a have sb: "int (length (Extra header)) - 32 - 65 = int k"
    unfolding k_def by linarith
  from a have "k mod 20 \<noteq> 0" by (simp add: k_def)
  moreover have "int (k mod 20) = int k mod 20" by (simp add: zmod_int)
  ultimately have "int k mod 20 \<noteq> 0" by linarith
  with sb a assms show "VerifyHeaderAndParents env c header parents sigs
          = (Inr (Some ErrInvalidCheckpointSigners), sigs)"
    by (simp add: VerifyHeaderAndParents_def extraVanity_def ExtraSeal_def AddressLength_def Let_def)
qed


section \<open>Properties of the fork predicates\<close>

text \<open>
  C10. With a nil \<^verbatim>\<open>PetersburgBlock\<close>, \<^verbatim>\<open>IsPetersburg(num)\<close> is
  \<^verbatim>\<open>IsConstantinople(num)\<close> for every \<open>num\<close> (a nil \<open>num\<close> included); with
  \<^verbatim>\<open>PetersburgBlock\<close> set to \<open>p\<close>, \<^verbatim>\<open>IsPetersburg(n)\<close> holds exactly when
  \<open>p \<le> n\<close>, whatever the Constantinople block is.
\<close>

theorem IsPetersburg_cases:
  "(PetersburgBlock c = None \<longrightarrow> IsPetersburg c num = IsConstantinople c num) \<and>
   (PetersburgBlock c = Some p \<longrightarrow> IsPetersburg c (Some n) = (p \<le> n))"
  by (simp add: IsPetersburg_def IsConstantinople_def)

theorem IsPetersburg_cases_witness:
  "PetersburgBlock (noForks\<lparr>ConstantinopleBlock := Some 5\<rparr>) = None \<and>
   IsPetersburg (noForks\<lparr>ConstantinopleBlock := Some 5\<rparr>) (Some 7) \<and>
   IsConstantinople (noForks\<lparr>ConstantinopleBlock := Some 5\<rparr>) (Some 7) \<and>
   PetersburgBlock (noForks\<lparr>ConstantinopleBlock := Some 5, PetersburgBlock := Some 9\<rparr>) = Some 9 \<and>
   \<not> IsPetersburg (noForks\<lparr>ConstantinopleBlock := Some 5, PetersburgBlock := Some 9\<rparr>) (Some 7)"
  using IsPetersburg_cases [of "noForks\<lparr>ConstantinopleBlock := Some 5\<rparr>" "Some 7" 0 0]
    IsPetersburg_cases [of "noForks\<lparr>ConstantinopleBlock := Some 5, PetersburgBlock := Some 9\<rparr>" None 9 7]
  by (simp add: noForks_def IsConstantinople_def)

section \<open>Claims on the seal hash and on signer recovery\<close>



text \<open>
  C2. For headers whose extra-data has at least 65 bytes, \<^verbatim>\<open>SealHash\<close> depends only on
  the 15 encoded fields, the extra-data without its trailing 65 bytes among them: (1) two
  headers with the same 15 fields have the same seal hash; (2) replacing the extra-data by
  one of at least 65 bytes that agrees with it before the trailing 65 bytes (every other
  field unchanged) leaves the seal hash unchanged; (3) so does writing a signature over
  the trailing 65 bytes, as \<^verbatim>\<open>Seal\<close> does.
\<close>

theorem SealHash_ignores_seal:
  "(65 \<le> length (Extra h) \<and> 65 \<le> length (Extra g) \<and>
      sigHeaderFields h = sigHeaderFields g \<longrightarrow>
      SealHash env h = SealHash env g) \<and>
   (65 \<le> length (Extra h) \<and> 65 \<le> length e' \<and>
      take (length (Extra h) - 65) (Extra h) = take (length e' - 65) e' \<longrightarrow>
      SealHash env (h\<lparr>Extra := e'\<rparr>) = SealHash env h) \<and>
   (65 \<le> length (Extra h) \<longrightarrow>
      (\<exists>h'. attachSignature h sighash = Inr h' \<and> SealHash env h' = SealHash env h))"
proof (intro conjI impI)
  assume "65 \<le> length (Extra h) \<and> 65 \<le> length (Extra g) \<and>
      sigHeaderFields h = sigHeaderFields g"
  then show "SealHash env h = SealHash env g"
    by (intro SealHash_sigHeaderFields) simp_all
next
  assume a: "65 \<le> length (Extra h) \<and> 65 \<le> length e' \<and>
      take (length (Extra h) - 65) (Extra h) = take (length e' - 65) e'"
  then have "sigHeaderFields (h\<lparr>Extra := e'\<rparr>) = sigHeaderFields h"
    by (simp add: sigHeaderFields_def SignatureLength_def)
  with a show "SealHash env (h\<lparr>Extra := e'\<rparr>) = SealHash env h"
    by (intro SealHash_sigHeaderFields) simp_all
next
  assume a: "65 \<le> length (Extra h)"
  let ?off = "length (Extra h) - 65"
  let ?e = "copyAt (Extra h) ?off sighash"
  have l: "length ?e = length (Extra h)" by (simp add: copyAt_length)
  have t: "take ?off ?e = take ?off (Extra h)" by (simp add: copyAt_take)
  have "sigHeaderFields (h\<lparr>Extra := ?e\<rparr>) = sigHeaderFields h"
    using l t by (simp add: sigHeaderFields_def SignatureLength_def)
  then have "SealHash env (h\<lparr>Extra := ?e\<rparr>) = SealHash env h"
    using a l by (intro SealHash_sigHeaderFields) simp_all
  moreover have "attachSignature h sighash = Inr (h\<lparr>Extra := ?e\<rparr>)"
    using a by (simp add: attachSignature_def ExtraSeal_def)
  ultimately show "\<exists>h'. attachSignature h sighash = Inr h' \<and> SealHash env h' = SealHash env h"
    by blast
qed

theorem SealHash_ignores_seal_witness:
  "SealHash testEnv (testHeader\<lparr>Extra := replicate 32 7 @ replicate 65 0\<rparr>) = Inr 33 \<and>
   SealHash testEnv (testHeader\<lparr>Extra := replicate 32 7 @ replicate 65 9\<rparr>) = Inr 33 \<and>
   sigHeaderFields (testHeader\<lparr>Extra := replicate 32 7 @ replicate 65 0\<rparr>)
     = sigHeaderFields (testHeader\<lparr>Extra := replicate 32 7 @ replicate 65 9\<rparr>) \<and>
   attachSignature (testHeader\<lparr>Extra := replicate 32 7 @ replicate 65 0\<rparr>) (replicate 65 9)
     = Inr (testHeader\<lparr>Extra := replicate 32 7 @ replicate 65 9\<rparr>)"
  using SealHash_ignores_seal [where h = "testHeader\<lparr>Extra := replicate 32 7 @ replicate 65 0\<rparr>"
      and g = "testHeader\<lparr>Extra := replicate 32 7 @ replicate 65 9\<rparr>"
      and e' = "replicate 32 7 @ replicate 65 9" and env = testEnv and sighash = "replicate 65 9"]
  apply (simp add: attachSignature_def ExtraSeal_def copyAt_def)
  apply (simp add: SealHash_def encodeSigHeader_def SignatureLength_def sigHeaderFields_def
      testEnv_def testHeader_def)
  done

text \<open>
  C9. For every header whose hash is not in the signature cache and whose extra-data is
  shorter than 65 bytes, \<^verbatim>\<open>Ecrecover\<close>, and so \<^verbatim>\<open>Author\<close>, returns the zero address
  with \<^verbatim>\<open>ErrMissingSignature\<close> and leaves the cache as it was. The seal hash is not
  evaluated: on such a header \<^verbatim>\<open>SealHash\<close> panics, and \<^verbatim>\<open>Ecrecover\<close> returns.
\<close>

theorem Ecrecover_short_extra:
  assumes "sigs (HeaderHash env header) = None" "length (Extra header) < 65"
  shows "Ecrecover env header sigs = (Inr (0, Some ErrMissingSignature), sigs) \<and>
         Author env header sigs = (Inr (0, Some ErrMissingSignature), sigs) \<and>
         SealHash env header = Inl SliceBoundsOutOfRange"
  using assms
  by (simp add: Author_def Ecrecover_def ExtraSeal_def SealHash_def encodeSigHeader_def
      SignatureLength_def)

theorem Ecrecover_short_extra_witness:
  "[5 \<mapsto> 1] (HeaderHash testEnv (testHeader\<lparr>Extra := replicate 64 0\<rparr>)) = None \<and>
   length (Extra (testHeader\<lparr>Extra := replicate 64 0\<rparr>)) < 65 \<and>
   Ecrecover testEnv (testHeader\<lparr>Extra := replicate 64 0\<rparr>) [5 \<mapsto> 1]
     = (Inr (0, Some ErrMissingSignature), [5 \<mapsto> 1])"
  using Ecrecover_short_extra [of "[5 \<mapsto> 1]" testEnv "testHeader\<lparr>Extra := replicate 64 0\<rparr>"]
  by (simp add: testEnv_def)

section \<open>Claims on header verification\<close>

text \<open>
  C6. The checks of \<^verbatim>\<open>VerifyHeaderAndParents\<close> on the extra-data. (1) Every header
  whose extra-data is shorter than 32 + 65 bytes is rejected. (2) Every header with a
  number and at least 32 + 65 bytes of extra-data is rejected if, with
  \<open>signersBytes = len(Extra) - 32 - 65\<close>, it is not a checkpoint (\<open>Number mod Epoch \<noteq> 0\<close>)
  and \<open>signersBytes \<noteq> 0\<close>, or it is a checkpoint and \<open>signersBytes\<close> is not a multiple
  of 20. (3) The checks run in the order of the source, so the error is the one of the
  extra-data for a header that passes the checks before them (number present, time not in
  the future, zero nonce): \<^verbatim>\<open>ErrMissingVanity\<close> below 32 bytes, otherwise
  \<^verbatim>\<open>ErrMissingSignature\<close> below 32 + 65 bytes, otherwise \<^verbatim>\<open>errExtraSigners\<close>
  for a non-checkpoint header with \<open>signersBytes \<noteq> 0\<close> and
  \<^verbatim>\<open>ErrInvalidCheckpointSigners\<close> for a checkpoint header with \<open>signersBytes\<close> not a
  multiple of 20. The epoch is not zero (\<^verbatim>\<open>New\<close> sees to it).
\<close>

theorem VerifyHeaderAndParents_extra_checks:
  "(length (Extra header) < 32 + 65 \<longrightarrow>
      (\<exists>e. VerifyHeaderAndParents env c header parents sigs = (Inr (Some e), sigs))) \<and>
   (Number header = Some n \<and> Epoch (config c) \<noteq> 0 \<and> 32 + 65 \<le> length (Extra header) \<and>
    ((Uint64 n mod Epoch (config c) \<noteq> 0 \<and> length (Extra header) - 32 - 65 \<noteq> 0) \<or>
     (Uint64 n mod Epoch (config c) = 0 \<and> (length (Extra header) - 32 - 65) mod 20 \<noteq> 0)) \<longrightarrow>
      (\<exists>e. VerifyHeaderAndParents env c header parents sigs = (Inr (Some e), sigs))) \<and>
   (Number header = Some n \<and> Time header \<le> now env \<and> Nonce header = 0 \<longrightarrow>
     (length (Extra header) < 32 \<longrightarrow>
        VerifyHeaderAndParents env c header parents sigs = (Inr (Some ErrMissingVanity), sigs)) \<and>
     (32 \<le> length (Extra header) \<and> length (Extra header) < 32 + 65 \<longrightarrow>
        VerifyHeaderAndParents env c header parents sigs = (Inr (Some ErrMissingSignature), sigs)) \<and>
     (32 + 65 \<le> length (Extra header) \<and> Epoch (config c) \<noteq> 0 \<and>
      Uint64 n mod Epoch (config c) \<noteq> 0 \<and> length (Extra header) - 32 - 65 \<noteq> 0 \<longrightarrow>
        VerifyHeaderAndParents env c header parents sigs = (Inr (Some errExtraSigners), sigs)) \<and>
     (32 + 65 \<le> length (Extra header) \<and> Epoch (config c) \<noteq> 0 \<and>
      Uint64 n mod Epoch (config c) = 0 \<and> (length (Extra header) - 32 - 65) mod 20 \<noteq> 0 \<longrightarrow>
        VerifyHeaderAndParents env c header parents sigs
          = (Inr (Some ErrInvalidCheckpointSigners), sigs)))"
proof (intro conjI)
  show "length (Extra header) < 32 + 65 \<longrightarrow>
      (\<exists>e. VerifyHeaderAndParents env c header parents sigs = (Inr (Some e), sigs))"
    by (intro impI, rule VerifyHeaderAndParents_short_rejected)
next
  show "Number header = Some n \<and> Epoch (config c) \<noteq> 0 \<and> 32 + 65 \<le> length (Extra header) \<and>
    ((Uint64 n mod Epoch (config c) \<noteq> 0 \<and> length (Extra header) - 32 - 65 \<noteq> 0) \<or>
     (Uint64 n mod Epoch (config c) = 0 \<and> (length (Extra header) - 32 - 65) mod 20 \<noteq> 0)) \<longrightarrow>
      (\<exists>e. VerifyHeaderAndParents env c header parents sigs = (Inr (Some e), sigs))"
    by (intro impI, elim conjE, rule VerifyHeaderAndParents_signers_rejected)
next
  show "Number header = Some n \<and> Time header \<le> now env \<and> Nonce header = 0 \<longrightarrow>
     (length (Extra header) < 32 \<longrightarrow>
        VerifyHeaderAndParents env c header parents sigs = (Inr (Some ErrMissingVanity), sigs)) \<and>
     (32 \<le> length (Extra header) \<and> length (Extra header) < 32 + 65 \<longrightarrow>
        VerifyHeaderAndParents env c header parents sigs = (Inr (Some ErrMissingSignature), sigs)) \<and>
     (32 + 65 \<le> length (Extra header) \<and> Epoch (config c) \<noteq> 0 \<and>
      Uint64 n mod Epoch (config c) \<noteq> 0 \<and> length (Extra header) - 32 - 65 \<noteq> 0 \<longrightarrow>
        VerifyHeaderAndParents env c header parents sigs = (Inr (Some errExtraSigners), sigs)) \<and>
     (32 + 65 \<le> length (Extra header) \<and> Epoch (config c) \<noteq> 0 \<and>
      Uint64 n mod Epoch (config c) = 0 \<and> (length (Extra header) - 32 - 65) mod 20 \<noteq> 0 \<longrightarrow>
        VerifyHeaderAndParents env c header parents sigs
          = (Inr (Some ErrInvalidCheckpointSigners), sigs))"
    by (intro impI, elim conjE, rule VerifyHeaderAndParents_extra_errors)
qed

theorem VerifyHeaderAndParents_extra_checks_witness:
  "VerifyHeaderAndParents testEnv testEngine (testHeader\<lparr>Extra := replicate 31 0\<rparr>) [] Map.empty
     = (Inr (Some ErrMissingVanity), Map.empty) \<and>
   VerifyHeaderAndParents testEnv testEngine (testHeader\<lparr>Extra := replicate 96 0\<rparr>) [] Map.empty
     = (Inr (Some ErrMissingSignature), Map.empty) \<and>
   VerifyHeaderAndParents testEnv testEngine (testHeader\<lparr>Extra := replicate 98 0\<rparr>) [] Map.empty
     = (Inr (Some errExtraSigners), Map.empty) \<and>
   VerifyHeaderAndParents testEnv testEngine
       (testHeader\<lparr>Number := Some 30000, Extra := replicate 98 0\<rparr>) [] Map.empty
     = (Inr (Some ErrInvalidCheckpointSigners), Map.empty)"
  using
    VerifyHeaderAndParents_extra_checks [where header = "testHeader\<lparr>Extra := replicate 31 0\<rparr>" and n = 1
      and env = testEnv and c = testEngine and parents = "[]" and sigs = Map.empty]
    VerifyHeaderAndParents_extra_checks [where header = "testHeader\<lparr>Extra := replicate 96 0\<rparr>" and n = 1
      and env = testEnv and c = testEngine and parents = "[]" and sigs = Map.empty]
    VerifyHeaderAndParents_extra_checks [where header = "testHeader\<lparr>Extra := replicate 98 0\<rparr>" and n = 1
      and env = testEnv and c = testEngine and parents = "[]" and sigs = Map.empty]
    VerifyHeaderAndParents_extra_checks [where header = "testHeader\<lparr>Number := Some 30000, Extra := replicate 98 0\<rparr>" and n = 30000
      and env = testEnv and c = testEngine and parents = "[]" and sigs = Map.empty]
  by (simp add: testHeader_def testEnv_def testEngine_def Uint64_def)

section \<open>Claims on seal verification\<close>

text \<open>
  C1. (1) A header that \<^verbatim>\<open>verifySeal\<close> accepts has a number \<open>N > 0\<close>, a recovered
  signer equal to its coinbase and in the snapshot's signer set, and difficulty 7 if the
  entry of the snapshot's signer list at index \<open>(N - N / Epoch * Epoch) mod |signer list|\<close>
  is the recovered signer and 3 otherwise. (2) A header that reaches the turn check (the
  snapshot is found, the signer is recovered, equals the coinbase and is authorized) with
  a difficulty that disagrees with this rule is rejected with \<^verbatim>\<open>ErrWrongDifficulty\<close>.
  (3) The index is \<open>(N mod Epoch) mod |signer list|\<close>.
\<close>

theorem verifySeal_turn_difficulty:
  "(Number header = Some n \<and> verifySeal env c header parents sigs = (Inr None, sigs') \<longrightarrow>
      0 < Uint64 n \<and>
      (\<exists>snap sigsA signer.
         snapshot env (Uint64 n - 1) (ParentHash header) parents sigs = (Inr snap, sigsA) \<and>
         Ecrecover env header sigsA = (Inr (signer, None), sigs') \<and>
         signer = Coinbase header \<and> signer \<in> SignerSet snap \<and>
         Difficulty header = Some
           (if SignerList snap !
                 ((Uint64 n - Uint64 n div Epoch (config c) * Epoch (config c))
                    mod length (SignerList snap)) = signer
            then 7 else 3))) \<and>
   (Number header = Some n \<and> 0 < Uint64 n \<and>
    snapshot env (Uint64 n - 1) (ParentHash header) parents sigs = (Inr snap, sigsA) \<and>
    Ecrecover env header sigsA = (Inr (signer, None), sigsB) \<and>
    signer = Coinbase header \<and> signer \<in> SignerSet snap \<and>
    SignerList snap \<noteq> [] \<and> Epoch (config c) \<noteq> 0 \<and>
    Difficulty header = Some d \<and>
    d \<noteq> (if SignerList snap !
               ((Uint64 n - Uint64 n div Epoch (config c) * Epoch (config c))
                  mod length (SignerList snap)) = signer
          then 7 else 3) \<longrightarrow>
      verifySeal env c header parents sigs = (Inr (Some ErrWrongDifficulty), sigsB)) \<and>
   (Uint64 n - Uint64 n div Epoch (config c) * Epoch (config c)) mod length (SignerList snap)
     = (Uint64 n mod Epoch (config c)) mod length (SignerList snap)"
proof (intro conjI impI)
  assume a: "Number header = Some n \<and> verifySeal env c header parents sigs = (Inr None, sigs')"
  from verifySeal_accepts [of header n env c parents sigs sigs'] a
  show "0 < Uint64 n" by blast
  from verifySeal_accepts [of header n env c parents sigs sigs'] a
  show "\<exists>snap sigsA signer.
         snapshot env (Uint64 n - 1) (ParentHash header) parents sigs = (Inr snap, sigsA) \<and>
         Ecrecover env header sigsA = (Inr (signer, None), sigs') \<and>
         signer = Coinbase header \<and> signer \<in> SignerSet snap \<and>
         Difficulty header = Some
           (if SignerList snap !
                 ((Uint64 n - Uint64 n div Epoch (config c) * Epoch (config c))
                    mod length (SignerList snap)) = signer
            then 7 else 3)" by blast
next
  assume "Number header = Some n \<and> 0 < Uint64 n \<and>
    snapshot env (Uint64 n - 1) (ParentHash header) parents sigs = (Inr snap, sigsA) \<and>
    Ecrecover env header sigsA = (Inr (signer, None), sigsB) \<and>
    signer = Coinbase header \<and> signer \<in> SignerSet snap \<and>
    SignerList snap \<noteq> [] \<and> Epoch (config c) \<noteq> 0 \<and>
    Difficulty header = Some d \<and>
    d \<noteq> (if SignerList snap !
               ((Uint64 n - Uint64 n div Epoch (config c) * Epoch (config c))
                  mod length (SignerList snap)) = signer
          then 7 else 3)"
  then show "verifySeal env c header parents sigs = (Inr (Some ErrWrongDifficulty), sigsB)"
    by (elim conjE) (rule verifySeal_wrong_difficulty, assumption+)
next
  show "(Uint64 n - Uint64 n div Epoch (config c) * Epoch (config c)) mod length (SignerList snap)
     = (Uint64 n mod Epoch (config c)) mod length (SignerList snap)"
    by (rule turn_index_mod)
qed


theorem verifySeal_turn_difficulty_witness:
  "verifySeal (turnEnv signerB []) testEngine (sealedHeader 1 signerB 7) [] Map.empty
     = (Inr None, [97 \<mapsto> signerB]) \<and>
   genesisSigners ! ((Uint64 1 - Uint64 1 div 30000 * 30000) mod 3) = signerB \<and>
   Difficulty (sealedHeader 1 signerB 7) = Some 7 \<and>
   verifySeal (turnEnv signerB []) testEngine (sealedHeader 1 signerB 3) [] Map.empty
     = (Inr (Some ErrWrongDifficulty), [97 \<mapsto> signerB])"
proof -
  let ?env = "turnEnv signerB []"
  let ?snap = "\<lparr> SignerSet = set genesisSigners, SignerList = genesisSigners, Recents = [] \<rparr>"
  have idx: "genesisSigners ! ((Uint64 1 - Uint64 1 div 30000 * 30000) mod 3) = signerB"
    by (simp add: Uint64_def genesisSigners_def signerB_def)
  have mem: "signerB \<in> set genesisSigners"
    by (simp add: genesisSigners_def signerB_def)
  have pos: "0 < Uint64 1" by (simp add: Uint64_def)
  have acc: "verifySeal ?env testEngine (sealedHeader 1 signerB 7) [] Map.empty
     = (Inr None, [97 \<mapsto> signerB])"
    using verifySeal_turnEnv [OF pos mem, of "[]" 7] idx by simp
  have num: "Number (sealedHeader 1 signerB d) = Some 1" for d
    by (simp add: sealedHeader_def)
  from verifySeal_turn_difficulty [THEN conjunct1, rule_format, OF conjI [OF num acc]]
  obtain snap sigsA signer where
    s: "snapshot ?env (Uint64 1 - 1) (ParentHash (sealedHeader 1 signerB 7)) [] Map.empty
          = (Inr snap, sigsA)"
    and e: "Ecrecover ?env (sealedHeader 1 signerB 7) sigsA = (Inr (signer, None), [97 \<mapsto> signerB])"
    and d: "Difficulty (sealedHeader 1 signerB 7) = Some
           (if SignerList snap !
                 ((Uint64 1 - Uint64 1 div Epoch (config testEngine) * Epoch (config testEngine))
                    mod length (SignerList snap)) = signer
            then 7 else 3)"
    by blast
  from s have snap: "snap = ?snap" "sigsA = Map.empty"
    by (simp_all add: snapshot_turnEnv)
  from e snap have signer: "signer = signerB"
    by (simp add: Ecrecover_turnEnv)
  have ep: "Epoch (config testEngine) = 30000" "length genesisSigners = 3"
    by (simp_all add: testEngine_def genesisSigners_def)
  from d have d7: "Difficulty (sealedHeader 1 signerB 7) = Some 7"
    unfolding snap signer by (simp add: ep idx)
  have "verifySeal ?env testEngine (sealedHeader 1 signerB 3) [] Map.empty
     = (Inr (Some ErrWrongDifficulty), [97 \<mapsto> signerB])"
  proof (rule verifySeal_turn_difficulty [THEN conjunct2, THEN conjunct1, rule_format,
        where n = 1 and snap = ?snap and sigsA = Map.empty and signer = signerB and d = 3],
      intro conjI)
    show "Number (sealedHeader 1 signerB 3) = Some 1" by (rule num)
    show "0 < Uint64 1" by (rule pos)
    show "snapshot ?env (Uint64 1 - 1) (ParentHash (sealedHeader 1 signerB 3)) [] Map.empty
        = (Inr ?snap, Map.empty)" by (rule snapshot_turnEnv)
    show "Ecrecover ?env (sealedHeader 1 signerB 3) Map.empty = (Inr (signerB, None), [97 \<mapsto> signerB])"
      by (rule Ecrecover_turnEnv)
    show "signerB = Coinbase (sealedHeader 1 signerB 3)" by (simp add: sealedHeader_def)
    show "signerB \<in> SignerSet ?snap" using mem by simp
    show "SignerList ?snap \<noteq> []" by (simp add: genesisSigners_def)
    show "Epoch (config testEngine) \<noteq> 0" by (simp add: ep)
    show "Difficulty (sealedHeader 1 signerB 3) = Some 3" by (simp add: sealedHeader_def)
    show "3 \<noteq> (if SignerList ?snap !
               ((Uint64 1 - Uint64 1 div Epoch (config testEngine) * Epoch (config testEngine))
                  mod length (SignerList ?snap)) = signerB
          then 7 else (3::int))"
      by (simp add: ep idx)
  qed
  with acc idx d7 show ?thesis by blast
qed


text \<open>
  C3. \<^verbatim>\<open>verifySeal\<close> has no recent-signer check: a header with number \<open>N > 0\<close>
  whose recovered signer equals the coinbase, is in the snapshot's signer set and carries
  the difficulty of the turn rule is accepted whatever the snapshot's \<^verbatim>\<open>Recents\<close> are,
  so also when the signer appears there within \<open>|signer list| div 2\<close> blocks of \<open>N\<close>.
  The witness is the second scenario of the specification (the first genesis signer signed
  block 1 and signs block 2): \<^verbatim>\<open>verifySeal\<close> accepts the header that \<^verbatim>\<open>Seal\<close>
  refuses to produce with \<^verbatim>\<open>ErrRecentlySigned\<close>.
\<close>

theorem verifySeal_no_recent_window:
  assumes "Number header = Some n" "0 < Uint64 n"
    "snapshot env (Uint64 n - 1) (ParentHash header) parents sigs
       = (Inr (snap\<lparr>Recents := recents\<rparr>), sigsA)"
    "Ecrecover env header sigsA = (Inr (signer, None), sigsB)"
    "signer = Coinbase header" "signer \<in> SignerSet snap"
    "SignerList snap \<noteq> []" "Epoch (config c) \<noteq> 0"
    "Difficulty header = Some
       (if SignerList snap !
               ((Uint64 n - Uint64 n div Epoch (config c) * Epoch (config c))
                  mod length (SignerList snap)) = signer
        then 7 else 3)"
  shows "verifySeal env c header parents sigs = (Inr None, sigsB)"
  using assms
  by (intro verifySeal_right_difficulty [where snap = "snap\<lparr>Recents := recents\<rparr>"
        and signer = signer and sigsA = sigsA and n = n]) simp_all


theorem verifySeal_no_recent_window_witness:
  "verifySeal (turnEnv signerA [(1, signerA)]) testEngine (sealedHeader 2 signerA 3) [] Map.empty
     = (Inr None, [97 \<mapsto> signerA]) \<and>
   (1, signerA) \<in> set [(1, signerA)] \<and> 2 - 1 \<le> length genesisSigners div 2 \<and>
   fst (Seal (turnEnv signerA [(1, signerA)]) testEngine (sealedHeader 2 signerA 3) 1 Map.empty)
     = Inr (Inl ErrRecentlySigned)"
proof -
  let ?env = "turnEnv signerA [(1, signerA)]"
  let ?snap = "\<lparr> SignerSet = set genesisSigners, SignerList = genesisSigners, Recents = [] \<rparr>"
  have "verifySeal ?env testEngine (sealedHeader 2 signerA 3) [] Map.empty
     = (Inr None, [97 \<mapsto> signerA])"
  proof (rule verifySeal_no_recent_window [where n = 2 and snap = ?snap
        and recents = "[(1, signerA)]" and sigsA = Map.empty and signer = signerA])
    show "Number (sealedHeader 2 signerA 3) = Some 2" by (simp add: sealedHeader_def)
    show "0 < Uint64 2" by (simp add: Uint64_def)
    show "snapshot ?env (Uint64 2 - 1) (ParentHash (sealedHeader 2 signerA 3)) [] Map.empty
        = (Inr (?snap\<lparr>Recents := [(1, signerA)]\<rparr>), Map.empty)"
      by (simp add: snapshot_turnEnv)
    show "Ecrecover ?env (sealedHeader 2 signerA 3) Map.empty = (Inr (signerA, None), [97 \<mapsto> signerA])"
      by (rule Ecrecover_turnEnv)
    show "signerA = Coinbase (sealedHeader 2 signerA 3)" by (simp add: sealedHeader_def)
    show "signerA \<in> SignerSet ?snap" by (simp add: genesisSigners_def signerA_def)
    show "SignerList ?snap \<noteq> []" by (simp add: genesisSigners_def)
    show "Epoch (config testEngine) \<noteq> 0" by (simp add: testEngine_def)
    show "Difficulty (sealedHeader 2 signerA 3) = Some
       (if SignerList ?snap !
               ((Uint64 2 - Uint64 2 div Epoch (config testEngine) * Epoch (config testEngine))
                  mod length (SignerList ?snap)) = signerA
        then 7 else 3)"
      by (simp add: sealedHeader_def testEngine_def genesisSigners_def Uint64_def signerA_def)
  qed
  moreover have "2 - 1 \<le> length genesisSigners div 2" by (simp add: genesisSigners_def)
  ultimately show ?thesis using Seal_turnEnv_recent by simp
qed


section \<open>Claims on sealing\<close>

text \<open>
  C4. \<^verbatim>\<open>Seal\<close> computes \<^verbatim>\<open>number-limit\<close> on \<^verbatim>\<open>uint64\<close> values, with
  \<open>limit = |validators| div 2 + 1\<close>. Where \<open>number < limit\<close> the subtraction wraps
  around to a value no block number exceeds, and the signer is let through. On a chain
  with epoch 2 and nine validators since block 2, the local signer, who signed block 3
  (distance 1, window 4), seals block 4: \<^verbatim>\<open>Seal\<close> returns the sealed header and
  not \<^verbatim>\<open>ErrRecentlySigned\<close>.
\<close>

theorem Seal_recent_window_underflow:
  "fst (Seal underflowEnv underflowEngine (sealedHeader 4 1 7) 1 Map.empty)
     = Inr (Inr (sealedHeader 4 1 7)) \<and>
   getValidatorsFromLastCheckpoint underflowEnv underflowEngine 3 [] = Inr (Inr nineSigners) \<and>
   val underflowEngine = 1 \<and>
   fst (snapshot underflowEnv 3 0 [] Map.empty)
     = Inr \<lparr> SignerSet = set nineSigners, SignerList = nineSigners, Recents = [(3, 1)] \<rparr> \<and>
   (4::int) - 3 \<le> int (length nineSigners div 2) \<and>
   (4::int) - int (length nineSigners div 2 + 1) < 3 \<and>
   sub64 4 (length nineSigners div 2 + 1) = 2 ^ 64 - 1"
proof -
  have g: "getValidatorsFromLastCheckpoint underflowEnv underflowEngine 3 [] = Inr (Inr nineSigners)"
    by (simp add: getValidatorsFromLastCheckpoint_def underflowEngine_def underflowEnv_def
        testEngine_def testHeader_def ExtraSeal_def extraVanity_def Uint64_def)
  have v: "val underflowEngine = 1" "Period (config underflowEngine) = 3"
    "Epoch (config underflowEngine) = 2"
    by (simp_all add: underflowEngine_def)
  have m: "SignerInList 1 nineSigners" by (simp add: SignerInList_def nineSigners_def)
  have s: "snapshot underflowEnv k h [] Map.empty
     = (Inr \<lparr> SignerSet = set nineSigners, SignerList = nineSigners, Recents = [(3, 1)] \<rparr>,
        Map.empty)" for k h
    by (simp add: underflowEnv_def)
  have w: "sub64 4 (length nineSigners div 2 + 1) = 2 ^ 64 - 1"
    by (simp add: sub64_def nineSigners_def)
  have r: "\<not> recentlySigned [(3, 1)] 1 4 (length nineSigners div 2 + 1)"
    by (simp add: sub64_def nineSigners_def)
  have t: "signerInTurn underflowEngine 1 4 nineSigners = Inr True"
    by (simp add: signerInTurn_def v nineSigners_def)
  have e: "consortiumRLP underflowEnv (sealedHeader 4 1 7) = Inr (1 # replicate 32 0)"
    by (simp add: consortiumRLP_def encodeSigHeader_def sigHeaderFields_def sealedHeader_def
        testHeader_def underflowEnv_def testEnv_def SignatureLength_def)
  have f: "signFn underflowEnv a bs = Inr (replicate 65 1)" for a bs
    by (simp add: underflowEnv_def testEnv_def)
  have a: "attachSignature (sealedHeader 4 1 7) (replicate 65 1) = Inr (sealedHeader 4 1 7)"
    by (simp add: attachSignature_def sealedHeader_def ExtraSeal_def copyAt_def)
  have n: "Number (sealedHeader 4 1 7) = Some 4" "Uint64 4 = 4"
    by (simp_all add: sealedHeader_def Uint64_def)
  have "fst (Seal underflowEnv underflowEngine (sealedHeader 4 1 7) 1 Map.empty)
     = Inr (Inr (sealedHeader 4 1 7))"
    by (simp add: Seal_def n v g m s r t e f a del: recentlySigned.simps One_nat_def)
  with g v(1) s w show ?thesis by (simp add: nineSigners_def)
qed


section \<open>Claims on finalization\<close>

text \<open>
  C5. For a header with a number \<open>N\<close>: (1) \<^verbatim>\<open>Finalize\<close> returns the error
  "the length of systemTxs does not match", and changes nothing, when the system
  transactions are non-empty and \<open>N + 1\<close> is not the ConsortiumV2 block, or empty and
  \<open>N + 1\<close> is that block; (2) when they are non-empty, \<open>N + 1\<close> is that block and
  \<^verbatim>\<open>WrapUpEpoch\<close> returns without error but leaves a system transaction, \<^verbatim>\<open>Finalize\<close>
  returns the same error; (3) whenever \<^verbatim>\<open>Finalize\<close> does not return nil it leaves the
  block as \<^verbatim>\<open>WrapUpEpoch\<close> left it (as it was, where that was not called): the root and
  the uncle hash are not assigned; (4) when it returns nil no system transaction is left,
  and the root is the intermediate root of the state and the uncle hash the hash of the
  empty uncle list.
\<close>

theorem Finalize_systemTxs:
  assumes "Number (fHeader f) = Some n"
  shows
   "(((fSystemTxs f \<noteq> [] \<and> \<not> IsOnConsortiumV2 (chainConfig c) (Some (n + 1))) \<or>
      (fSystemTxs f = [] \<and> IsOnConsortiumV2 (chainConfig c) (Some (n + 1)))) \<longrightarrow>
       Finalize env c W R f = (Inr (Some systemTxsMismatch), f)) \<and>
    (fSystemTxs f \<noteq> [] \<and> IsOnConsortiumV2 (chainConfig c) (Some (n + 1)) \<and>
     W f = (None, f') \<and> fSystemTxs f' \<noteq> [] \<longrightarrow>
       Finalize env c W R f = (Inr (Some systemTxsMismatch), f')) \<and>
    (fst (Finalize env c W R f) \<noteq> Inr None \<longrightarrow>
       snd (Finalize env c W R f) = afterWrapUp c W f) \<and>
    (fst (Finalize env c W R f) = Inr None \<longrightarrow>
       fSystemTxs (afterWrapUp c W f) = [] \<and>
       Root (fHeader (snd (Finalize env c W R f))) =
         fst (R (fState (afterWrapUp c W f))
                (IsEIP158 (Config env) (Number (fHeader (afterWrapUp c W f))))) \<and>
       UncleHash (fHeader (snd (Finalize env c W R f))) = emptyUncleHash env)"
proof (intro conjI impI)
  assume "(fSystemTxs f \<noteq> [] \<and> \<not> IsOnConsortiumV2 (chainConfig c) (Some (n + 1))) \<or>
      (fSystemTxs f = [] \<and> IsOnConsortiumV2 (chainConfig c) (Some (n + 1)))"
  with assms show "Finalize env c W R f = (Inr (Some systemTxsMismatch), f)"
    by (rule Finalize_mismatch)
next
  assume "fSystemTxs f \<noteq> [] \<and> IsOnConsortiumV2 (chainConfig c) (Some (n + 1)) \<and>
     W f = (None, f') \<and> fSystemTxs f' \<noteq> []"
  with assms show "Finalize env c W R f = (Inr (Some systemTxsMismatch), f')"
    by (elim conjE) (rule Finalize_leftover, assumption+)
next
  assume "fst (Finalize env c W R f) \<noteq> Inr None"
  then show "snd (Finalize env c W R f) = afterWrapUp c W f"
    by (rule Finalize_error_keeps_header)
next
  assume a: "fst (Finalize env c W R f) = Inr None"
  from Finalize_success_sets_header [OF a]
  show "fSystemTxs (afterWrapUp c W f) = []"
    and "Root (fHeader (snd (Finalize env c W R f))) =
         fst (R (fState (afterWrapUp c W f))
                (IsEIP158 (Config env) (Number (fHeader (afterWrapUp c W f)))))"
    and "UncleHash (fHeader (snd (Finalize env c W R f))) = emptyUncleHash env"
    by simp_all
qed

theorem Finalize_systemTxs_witness:
  "Finalize finEnv finEngine consumeAll rootOf (finInput 5 [[1]])
     = (Inr (Some systemTxsMismatch), finInput 5 [[1]]) \<and>
   Finalize finEnv finEngine consumeAll rootOf (finInput 9 [])
     = (Inr (Some systemTxsMismatch), finInput 9 []) \<and>
   Finalize finEnv finEngine consumeNone rootOf (finInput 9 [[1]])
     = (Inr (Some systemTxsMismatch), finInput 9 [[1]]) \<and>
   snd (Finalize finEnv finEngine consumeNone rootOf (finInput 9 [[1]]))
     = afterWrapUp finEngine consumeNone (finInput 9 [[1]]) \<and>
   fst (Finalize finEnv finEngine consumeAll rootOf (finInput 9 [[1]])) = Inr None \<and>
   Root (fHeader (snd (Finalize finEnv finEngine consumeAll rootOf (finInput 9 [[1]])))) = 42 \<and>
   UncleHash (fHeader (snd (Finalize finEnv finEngine consumeAll rootOf (finInput 9 [[1]])))) = 77"
proof -
  have n: "Number (fHeader (finInput k txs)) = Some k" for k txs
    by (simp add: finInput_def)
  have v: "IsOnConsortiumV2 (chainConfig finEngine) (Some k) = (k = 10)" for k
    by (simp add: finEngine_def IsOnConsortiumV2_def)
  have t: "fSystemTxs (finInput k txs) = txs" for k txs
    by (simp add: finInput_def)
  have 1: "Finalize finEnv finEngine consumeAll rootOf (finInput 5 [[1]])
     = (Inr (Some systemTxsMismatch), finInput 5 [[1]])"
    using Finalize_systemTxs [OF n [of 5 "[[1]]"], where c = finEngine and env = finEnv
        and W = consumeAll and R = rootOf]
    by (simp add: v t)
  have 2: "Finalize finEnv finEngine consumeAll rootOf (finInput 9 [])
     = (Inr (Some systemTxsMismatch), finInput 9 [])"
    using Finalize_systemTxs [OF n [of 9 "[]"], where c = finEngine and env = finEnv
        and W = consumeAll and R = rootOf]
    by (simp add: v t)
  have 3: "Finalize finEnv finEngine consumeNone rootOf (finInput 9 [[1]])
     = (Inr (Some systemTxsMismatch), finInput 9 [[1]])"
    using Finalize_systemTxs [OF n [of 9 "[[1]]"], where c = finEngine and env = finEnv
        and W = consumeNone and R = rootOf and f' = "finInput 9 [[1]]"]
    by (simp add: v t consumeNone_def)
  have k: "snd (Finalize finEnv finEngine consumeNone rootOf (finInput 9 [[1]]))
     = afterWrapUp finEngine consumeNone (finInput 9 [[1]])"
    using Finalize_systemTxs [OF n [of 9 "[[1]]"], where c = finEngine and env = finEnv
        and W = consumeNone and R = rootOf and f' = "finInput 9 [[1]]"] 3
    by simp
  have 4: "fst (Finalize finEnv finEngine consumeAll rootOf (finInput 9 [[1]])) = Inr None"
    by (simp add: Finalize_def n v t consumeAll_def rootOf_def Let_def)
  have a: "afterWrapUp finEngine consumeAll (finInput 9 [[1]]) = snd (consumeAll (finInput 9 [[1]]))"
    by (simp add: afterWrapUp_def n v t)
  from Finalize_systemTxs [OF n [of 9 "[[1]]"], where c = finEngine and env = finEnv
        and W = consumeAll and R = rootOf] 4
  have r: "Root (fHeader (snd (Finalize finEnv finEngine consumeAll rootOf (finInput 9 [[1]])))) =
         fst (rootOf (fState (afterWrapUp finEngine consumeAll (finInput 9 [[1]])))
                (IsEIP158 (Config finEnv)
                   (Number (fHeader (afterWrapUp finEngine consumeAll (finInput 9 [[1]]))))))"
    and u: "UncleHash (fHeader (snd (Finalize finEnv finEngine consumeAll rootOf (finInput 9 [[1]]))))
         = emptyUncleHash finEnv"
    by blast+
  have fs: "fState (snd (consumeAll (finInput 9 [[1]]))) = 1"
    by (simp add: consumeAll_def finInput_def)
  from r have r42: "Root (fHeader (snd (Finalize finEnv finEngine consumeAll rootOf (finInput 9 [[1]])))) = 42"
    by (simp add: a fs rootOf_def)
  from u have u77: "UncleHash (fHeader (snd (Finalize finEnv finEngine consumeAll rootOf (finInput 9 [[1]])))) = 77"
    by (simp add: finEnv_def)
  note r42 u77
  with 1 2 3 k 4 show ?thesis by simp
qed

end
